theory Spec2Isabelle
  imports Complex_Main "HOL-Library.Multiset"
begin

section \<open>The room view of the bill splitter\<close>

text \<open>
  The source file \<^verbatim>\<open>frontend/src/pages/Room.tsx\<close> holds two room views. The first one
  (lines 1 to 215) listens to \<^verbatim>\<open>newMessage\<close>/\<^verbatim>\<open>newProof\<close> and never inserts a
  message locally; the second one (lines 216 to 539) keeps an online-user list, inserts
  its own text messages before they are confirmed and sorts the history it loads.
  Definitions of the first view carry the suffix \<open>_v1\<close>; the others belong to the second
  view or are shared by both.

  A React state cell becomes a field of the record \<open>room_state\<close>; a handler becomes a
  function from the state to the new state and the list of calls it made to the outside
  (toast, navigation, console, socket, and the log entry it appended), in program order.
\<close>

subsection \<open>JavaScript values\<close>

text \<open>
  A property that holds a string, or is \<^verbatim>\<open>undefined\<close>/\<^verbatim>\<open>null\<close>, is a \<open>string option\<close>.
  A string is a list of HOL's 8-bit characters, read as code units below 256. \<open>truthy\<close>
  is JavaScript's ToBoolean on such a value and \<open>js_or\<close> the operator \<^verbatim>\<open>||\<close>: the empty
  string is falsy too.
\<close>

definition truthy :: "string option \<Rightarrow> bool" where
  "truthy v = (case v of None \<Rightarrow> False | Some s \<Rightarrow> s \<noteq> [])"

definition js_or :: "string option \<Rightarrow> string option \<Rightarrow> string option" where
  "js_or a b = (if truthy a then a else b)"

text \<open>\<^verbatim>\<open>a || d\<close> where \<open>d\<close> is a string that is always there.\<close>

definition js_or_str :: "string option \<Rightarrow> string \<Rightarrow> string" where
  "js_or_str a d = (case a of None \<Rightarrow> d | Some s \<Rightarrow> if s \<noteq> [] then s else d)"

text \<open>
  \<^verbatim>\<open>String.prototype.trim\<close> removes white space and line terminators at both ends.
  Of these, the codes below 256 are TAB, LF, VT, FF, CR, SP and NBSP.
\<close>

definition isWhiteSpace :: "char \<Rightarrow> bool" where
  "isWhiteSpace c = (of_char c \<in> {9, 10, 11, 12, 13, 32, 160 :: nat})"

definition trim :: "string \<Rightarrow> string" where
  "trim s = rev (dropWhile isWhiteSpace (rev (dropWhile isWhiteSpace s)))"

subsection \<open>Messages\<close>

text \<open>
  \<^verbatim>\<open>interface Message\<close>. The first view declares \<^verbatim>\<open>id?: string\<close>, and both views copy
  \<^verbatim>\<open>msg.id\<close> of an untyped history record, so \<open>m_id\<close> may be undefined.
\<close>

record message =
  m_id :: "string option"
  m_senderName :: string
  m_text :: "string option"
  m_proofUrl :: "string option"
  m_createdAt :: "string option"
  m_roomId :: "string option"

text \<open>
  A record of \<^verbatim>\<open>data.messages\<close>, typed \<^verbatim>\<open>any\<close> in the source: the properties the
  loader reads. \<open>r_sender\<close> is \<^verbatim>\<open>msg.sender\<close>, an object with a \<^verbatim>\<open>name\<close> when present.
\<close>

record history_record =
  r_id :: "string option"
  r_senderName :: "string option"
  r_sender :: "string option option"
  r_text :: "string option"
  r_proofUrl :: "string option"
  r_fileUrl :: "string option"
  r_createdAt :: "string option"

text \<open>\<^verbatim>\<open>msg.sender?.name\<close>\<close>

definition senderNameOf :: "string option option \<Rightarrow> string option" where
  "senderNameOf s = (case s of None \<Rightarrow> None | Some n \<Rightarrow> n)"

text \<open>
  The object literal both \<^verbatim>\<open>fetchMessages\<close> build for each history record (lines 75 to
  81 and 304 to 310). \<open>now\<close> is \<^verbatim>\<open>new Date().toISOString()\<close> at that record.
\<close>

definition normalizeMessage :: "string \<Rightarrow> history_record \<Rightarrow> message" where
  "normalizeMessage now msg =
     \<lparr> m_id = r_id msg,
       m_senderName =
         js_or_str (js_or (r_senderName msg) (senderNameOf (r_sender msg))) ''Unknown'',
       m_text = r_text msg,
       m_proofUrl = js_or (r_proofUrl msg) (r_fileUrl msg),
       m_createdAt = Some (js_or_str (r_createdAt msg) now),
       m_roomId = None \<rparr>"

text \<open>
  \<^verbatim>\<open>data.messages.map(...)\<close>: the clock is read once for each record, \<open>clock i\<close> being
  its reading at the record of index \<open>i\<close>.
\<close>

definition normalizeAll :: "(nat \<Rightarrow> string) \<Rightarrow> history_record list \<Rightarrow> message list" where
  "normalizeAll clock msgs = map (\<lambda>(i, msg). normalizeMessage (clock i) msg) (enumerate 0 msgs)"

subsection \<open>Untyped data: the menu of a room\<close>

text \<open>
  \<^verbatim>\<open>room.menu\<close> is read as \<^verbatim>\<open>any\<close>, and the code itself allows for a missing menu and for
  items that are bare names, so the menu is a JSON value as \<^verbatim>\<open>res.json()\<close> builds it; a
  number is known by its value. \<open>JUndefined\<close> is what reading an absent property gives.
\<close>

datatype jsvalue =
  JUndefined
| JNull
| JBool bool
| JNum rat
| JStr string
| JArr "jsvalue list"
| JObj "(string \<times> jsvalue) list"

fun jsTruthy :: "jsvalue \<Rightarrow> bool" where
  "jsTruthy JUndefined = False"
| "jsTruthy JNull = False"
| "jsTruthy (JBool b) = b"
| "jsTruthy (JNum n) = (n \<noteq> 0)"
| "jsTruthy (JStr s) = (s \<noteq> [])"
| "jsTruthy (JArr xs) = True"
| "jsTruthy (JObj kvs) = True"

text \<open>
  \<^verbatim>\<open>item.name\<close> and \<^verbatim>\<open>item.price\<close> on an item that is neither \<^verbatim>\<open>null\<close> nor \<^verbatim>\<open>undefined\<close>:
  the property of an object (the last one of that name, as \<^verbatim>\<open>JSON.parse\<close> keeps it), and
  \<^verbatim>\<open>undefined\<close> on a string, a number, a boolean or an array.
\<close>

fun readProp :: "jsvalue \<Rightarrow> string \<Rightarrow> jsvalue" where
  "readProp (JObj kvs) k = (case map_of (rev kvs) k of None \<Rightarrow> JUndefined | Some v \<Rightarrow> v)"
| "readProp v k = JUndefined"

text \<open>\<^verbatim>\<open>index.toString()\<close>\<close>

fun showNat :: "nat \<Rightarrow> string" where
  "showNat n =
     (if n < 10 then [char_of (48 + n)]
      else showNat (n div 10) @ [char_of (48 + n mod 10)])"

text \<open>\<^verbatim>\<open>interface MenuItem\<close>, and the object literal of lines 284 to 286.\<close>

record menu_item =
  mi_id :: string
  mi_name :: jsvalue
  mi_price :: jsvalue

definition menuItem :: "nat \<Rightarrow> jsvalue \<Rightarrow> menu_item" where
  "menuItem index item =
     \<lparr> mi_id = showNat index,
       mi_name = (if jsTruthy (readProp item ''name'') then readProp item ''name'' else item),
       mi_price = (if jsTruthy (readProp item ''price'') then readProp item ''price'' else JNum 0) \<rparr>"

text \<open>
  The two ways \<^verbatim>\<open>(room.menu || []).map(...)\<close> throws a TypeError: the value has no \<^verbatim>\<open>map\<close>
  function, or the item at an index is \<^verbatim>\<open>null\<close>, whose \<^verbatim>\<open>name\<close> cannot be read.
\<close>

datatype fault = NotAFunction | NullItem nat

fun mapItems :: "nat \<Rightarrow> jsvalue list \<Rightarrow> fault + menu_item list" where
  "mapItems index [] = Inr []"
| "mapItems index (item # items) =
     (if item = JNull \<or> item = JUndefined then Inl (NullItem index)
      else
        (case mapItems (Suc index) items of
           Inl f \<Rightarrow> Inl f
         | Inr rest \<Rightarrow> Inr (menuItem index item # rest)))"

definition mapMenu :: "jsvalue \<Rightarrow> fault + menu_item list" where
  "mapMenu menu =
     (case (if jsTruthy menu then menu else JArr []) of
        JArr items \<Rightarrow> mapItems 0 items
      | other \<Rightarrow> Inl NotAFunction)"

subsection \<open>The state of the view and its calls to the outside\<close>

text \<open>
  \<open>socket\<close> tells whether the state cell holds a socket (it is \<^verbatim>\<open>null\<close> until the socket
  effect has run); \<open>file_st\<close> (the cell \<^verbatim>\<open>file\<close>) is the attached \<^verbatim>\<open>File\<close>, known by its
  name. \<open>displayName\<close>, \<open>roomId\<close> and \<open>token\<close> are what the component reads from local
  storage and from the route. \<open>menuItems\<close> is a cell of the second view alone.
\<close>

record room_state =
  socket :: bool
  messages :: "message list"
  input :: string
  file_st :: "string option"
  roomTitle :: string
  menuItems :: "menu_item list"
  onlineUsers :: "string list"
  displayName :: string
  roomId :: "string option"
  token :: "string option"

datatype outbound =
  JoinRoom "string option" string
| SendMessage message
| SendProof message

text \<open>
  \<open>Appended m\<close> records that a \<^verbatim>\<open>setMessages\<close> call put \<open>m\<close> at the end of the log; the
  other constructors are \<^verbatim>\<open>toast({title, description})\<close>, \<^verbatim>\<open>navigate(path)\<close>,
  \<^verbatim>\<open>console.error(err)\<close> (with the error's message) and \<^verbatim>\<open>socket.emit\<close>.
\<close>

datatype effect =
  Toast string "string option"
| Navigate string
| ConsoleError string
| Emit outbound
| Appended message

text \<open>
  How a \<^verbatim>\<open>fetch\<close> ends: it rejects with an error message, or it gives a response with a
  status whose body either cannot be read the way the handler reads it (\<^verbatim>\<open>res.json()\<close>
  rejects, or a property is read from \<^verbatim>\<open>undefined\<close>: \<open>Inl\<close> the message of that error)
  or holds the data the handler uses.
\<close>

datatype 'a fetched =
  NetworkError string
| Response nat "string + 'a"

text \<open>\<^verbatim>\<open>res.ok\<close>\<close>

definition ok :: "nat \<Rightarrow> bool" where
  "ok status = (200 \<le> status \<and> status \<le> 299)"

text \<open>
  What a \<^verbatim>\<open>try\<close> block of the shape
  \<^verbatim>\<open>res = await fetch(..); if (!res.ok) throw new Error(failed); data = await res.json(); ..\<close>
  reaches: \<open>Inl\<close> the message of the error its \<^verbatim>\<open>catch\<close> receives, or \<open>Inr\<close> the data.
\<close>

definition settle :: "string \<Rightarrow> 'a fetched \<Rightarrow> string + 'a" where
  "settle failed res =
     (case res of
        NetworkError e \<Rightarrow> Inl e
      | Response status body \<Rightarrow> if \<not> ok status then Inl failed else body)"

subsection \<open>Loading the room and its history\<close>

text \<open>
  \<^verbatim>\<open>new Date(m.createdAt).getTime()\<close> is not code of this repository: \<open>getTime\<close>, a
  parameter, gives the milliseconds of a date string, \<open>None\<close> for an invalid date (NaN).
\<close>

definition timeOf :: "(string \<Rightarrow> int option) \<Rightarrow> message \<Rightarrow> int option" where
  "timeOf getTime m = (case m_createdAt m of None \<Rightarrow> None | Some s \<Rightarrow> getTime s)"

text \<open>
  The comparator of lines 312 to 314. A difference with a NaN operand is NaN, which
  \<^verbatim>\<open>Array.prototype.sort\<close> reads as \<open>0\<close>.
\<close>

definition compareCreatedAt :: "(string \<Rightarrow> int option) \<Rightarrow> message \<Rightarrow> message \<Rightarrow> int" where
  "compareCreatedAt getTime a b =
     (case (timeOf getTime a, timeOf getTime b) of
        (Some x, Some y) \<Rightarrow> x - y
      | _ \<Rightarrow> 0)"

text \<open>
  \<^verbatim>\<open>Array.prototype.sort(cmp)\<close> as a stable insertion sort: an element goes behind every
  element it does not compare below. For a consistent comparator ECMAScript fixes the
  result (sorted, equal elements in their given order) and this is it; for an
  inconsistent one (possible here only with an invalid date) the standard leaves the
  order to the engine.
\<close>

fun insertBy :: "('a \<Rightarrow> 'a \<Rightarrow> int) \<Rightarrow> 'a \<Rightarrow> 'a list \<Rightarrow> 'a list" where
  "insertBy cmp x [] = [x]"
| "insertBy cmp x (y # ys) = (if cmp x y < 0 then x # y # ys else y # insertBy cmp x ys)"

definition sortBy :: "('a \<Rightarrow> 'a \<Rightarrow> int) \<Rightarrow> 'a list \<Rightarrow> 'a list" where
  "sortBy cmp xs = foldl (\<lambda>acc x. insertBy cmp x acc) [] xs"

text \<open>\<^verbatim>\<open>fetchMessages\<close> of the second view (lines 295 to 320).\<close>

definition fetchMessages ::
  "(string \<Rightarrow> int option) \<Rightarrow> (nat \<Rightarrow> string) \<Rightarrow> history_record list fetched \<Rightarrow>
   room_state \<Rightarrow> room_state \<times> effect list" where
  "fetchMessages getTime clock res st =
     (case settle ''Failed to fetch messages'' res of
        Inl err \<Rightarrow> (st, [ConsoleError err])
      | Inr msgs \<Rightarrow>
          (st\<lparr>messages := sortBy (compareCreatedAt getTime) (normalizeAll clock msgs)\<rparr>, []))"

text \<open>\<^verbatim>\<open>fetchMessages\<close> of the first view (lines 67 to 86): the same, with no sort.\<close>

definition fetchMessages_v1 ::
  "(nat \<Rightarrow> string) \<Rightarrow> history_record list fetched \<Rightarrow> room_state \<Rightarrow> room_state \<times> effect list" where
  "fetchMessages_v1 clock res st =
     (case settle ''Failed to fetch messages'' res of
        Inl err \<Rightarrow> (st, [ConsoleError err])
      | Inr msgs \<Rightarrow> (st\<lparr>messages := normalizeAll clock msgs\<rparr>, []))"

text \<open>
  \<^verbatim>\<open>data.room\<close>: its title, a string as the state cell is declared, and its menu. A body
  that has no room is one that cannot be read: \<^verbatim>\<open>room.title\<close> throws before anything is
  stored.
\<close>

record room_json =
  rj_title :: string
  rj_menu :: jsvalue

text \<open>
  \<^verbatim>\<open>fetchRoom\<close> of the second view (lines 273 to 293). The title is stored before the menu
  is mapped, inside the same \<^verbatim>\<open>try\<close>: when the mapping throws, the title stays stored and
  the \<^verbatim>\<open>catch\<close> shows the error and leaves the room. The text of a TypeError is the
  engine's: \<open>describe\<close>, a parameter, gives it.
\<close>

definition fetchRoom ::
  "(fault \<Rightarrow> string) \<Rightarrow> room_json fetched \<Rightarrow> room_state \<Rightarrow> room_state \<times> effect list" where
  "fetchRoom describe res st =
     (case settle ''Failed to fetch room'' res of
        Inl err \<Rightarrow> (st, [Toast ''Error'' (Some err), Navigate ''/rooms''])
      | Inr room \<Rightarrow>
          (case mapMenu (rj_menu room) of
             Inl f \<Rightarrow>
               (st\<lparr>roomTitle := rj_title room\<rparr>,
                [Toast ''Error'' (Some (describe f)), Navigate ''/rooms''])
           | Inr items \<Rightarrow> (st\<lparr>roomTitle := rj_title room, menuItems := items\<rparr>, [])))"

text \<open>
  \<^verbatim>\<open>fetchRoom\<close> of the first view (lines 51 to 65); the data is \<^verbatim>\<open>data.rooms\<close>, each room
  an id and a title, searched for the id of the route.
\<close>

definition fetchRoom_v1 ::
  "(string \<times> string) list fetched \<Rightarrow> room_state \<Rightarrow> room_state \<times> effect list" where
  "fetchRoom_v1 res st =
     (case settle ''Failed to fetch rooms'' res of
        Inl err \<Rightarrow> (st, [Toast ''Error'' (Some err), Navigate ''/rooms''])
      | Inr rooms \<Rightarrow>
          (case find (\<lambda>r. Some (fst r) = roomId st) rooms of
             None \<Rightarrow> (st, [Toast ''Error'' (Some ''Room not found''), Navigate ''/rooms''])
           | Some room \<Rightarrow> (st\<lparr>roomTitle := snd room\<rparr>, [])))"

text \<open>
  The effect that enters a room (lines 266 to 324, and 44 to 90). Both fetches are started
  together and write different state cells; the calls of \<^verbatim>\<open>fetchRoom\<close> are listed first.
\<close>

definition enterRoom ::
  "(string \<Rightarrow> int option) \<Rightarrow> (fault \<Rightarrow> string) \<Rightarrow> (nat \<Rightarrow> string) \<Rightarrow> room_json fetched \<Rightarrow>
   history_record list fetched \<Rightarrow> room_state \<Rightarrow> room_state \<times> effect list" where
  "enterRoom getTime describe clock roomRes msgsRes st =
     (if \<not> truthy (token st)
      then (st, [Toast ''Unauthorized'' (Some ''Please log in.''), Navigate ''/login''])
      else
        let (st1, out1) = fetchRoom describe roomRes st;
            (st2, out2) = fetchMessages getTime clock msgsRes st1
        in (st2, out1 @ out2))"

definition enterRoom_v1 ::
  "(nat \<Rightarrow> string) \<Rightarrow> (string \<times> string) list fetched \<Rightarrow>
   history_record list fetched \<Rightarrow> room_state \<Rightarrow> room_state \<times> effect list" where
  "enterRoom_v1 clock roomRes msgsRes st =
     (if \<not> truthy (token st)
      then (st, [Toast ''Unauthorized'' (Some ''Please log in.''), Navigate ''/login''])
      else
        let (st1, out1) = fetchRoom_v1 roomRes st;
            (st2, out2) = fetchMessages_v1 clock msgsRes st1
        in (st2, out1 @ out2))"

subsection \<open>Events of the socket (second view, lines 345 to 371)\<close>

datatype inbound =
  UserList "string list"
| UserJoined string
| UserLeft string
| ReceiveMessage message
| ReceiveProof message

text \<open>\<^verbatim>\<open>prev.some((m) => m.id === msg.id)\<close>\<close>

definition hasId :: "message list \<Rightarrow> string option \<Rightarrow> bool" where
  "hasId prev i = list_ex (\<lambda>m. m_id m = i) prev"

fun applyInbound :: "inbound \<Rightarrow> room_state \<Rightarrow> room_state \<times> effect list" where
  "applyInbound (UserList users) st =
     (st\<lparr>onlineUsers := filter (\<lambda>u. u \<noteq> displayName st) users\<rparr>, [])"
| "applyInbound (UserJoined name) st =
     (st, if name \<noteq> displayName st then [Toast (name @ '' joined the room'') None] else [])"
| "applyInbound (UserLeft name) st =
     (st, if name \<noteq> displayName st then [Toast (name @ '' left the room'') None] else [])"
| "applyInbound (ReceiveMessage msg) st =
     (if m_senderName msg = displayName st then (st, [])
      else if hasId (messages st) (m_id msg) then (st, [])
      else (st\<lparr>messages := messages st @ [msg]\<rparr>, [Appended msg]))"
| "applyInbound (ReceiveProof proof) st =
     (if hasId (messages st) (m_id proof) then (st, [])
      else (st\<lparr>messages := messages st @ [proof]\<rparr>, [Appended proof]))"

subsection \<open>Sending (second view, lines 380 to 436)\<close>

text \<open>
  The text branch, lines 384 to 397, with the object literal of lines 385 to 391 as
  \<open>textMessage\<close>. \<open>uuid\<close> is what \<^verbatim>\<open>crypto.randomUUID()\<close> returned and
  \<open>now\<close> what \<^verbatim>\<open>new Date().toISOString()\<close> returned.
\<close>

definition textMessage :: "string \<Rightarrow> string \<Rightarrow> room_state \<Rightarrow> message" where
  "textMessage uuid now st =
     \<lparr> m_id = Some uuid, m_senderName = displayName st, m_text = Some (trim (input st)),
       m_proofUrl = None, m_createdAt = Some now, m_roomId = roomId st \<rparr>"

definition sendText :: "string \<Rightarrow> string \<Rightarrow> room_state \<Rightarrow> room_state \<times> effect list" where
  "sendText uuid now st =
     (let msg = textMessage uuid now st
      in (st\<lparr>messages := messages st @ [msg], input := []\<rparr>,
          [Appended msg, Emit (SendMessage msg)]))"

text \<open>\<^verbatim>\<open>data.proof\<close> of the upload's response.\<close>

record proof_descriptor =
  p_id :: "string option"
  p_fileUrl :: "string option"
  p_createdAt :: "string option"

text \<open>
  The file branch once the upload has ended, lines 404 to 434. It runs in the closure of
  the \<^verbatim>\<open>handleSend\<close> call that started the upload, where the socket is not \<^verbatim>\<open>null\<close>.
\<close>

definition proofMessage :: "proof_descriptor \<Rightarrow> room_state \<Rightarrow> message" where
  "proofMessage p st =
     \<lparr> m_id = p_id p, m_senderName = displayName st, m_text = None,
       m_proofUrl = p_fileUrl p, m_createdAt = p_createdAt p, m_roomId = roomId st \<rparr>"

definition sendProof ::
  "proof_descriptor fetched \<Rightarrow> room_state \<Rightarrow> room_state \<times> effect list" where
  "sendProof res st =
     (case settle ''Failed to upload file'' res of
        Inl err \<Rightarrow> (st, [ConsoleError err, Toast ''Error sending file'' (Some err)])
      | Inr p \<Rightarrow>
          let proofMsg = proofMessage p st
          in if hasId (messages st) (m_id proofMsg)
             then (st\<lparr>file_st := None\<rparr>,
                   [Emit (SendProof proofMsg), Toast ''File sent!'' None])
             else (st\<lparr>messages := messages st @ [proofMsg], file_st := None\<rparr>,
                   [Emit (SendProof proofMsg), Appended proofMsg, Toast ''File sent!'' None]))"

text \<open>
  \<^verbatim>\<open>handleSend\<close> up to its \<^verbatim>\<open>await\<close>: the guard of line 381 and the text branch.
\<close>

definition handleSendSync :: "string \<Rightarrow> string \<Rightarrow> room_state \<Rightarrow> room_state \<times> effect list" where
  "handleSendSync uuid now st =
     (if \<not> socket st \<or> (trim (input st) = [] \<and> file_st st = None) then (st, [])
      else if trim (input st) \<noteq> [] then sendText uuid now st
      else (st, []))"

text \<open>
  The whole of \<^verbatim>\<open>handleSend\<close>, for an upload that ends with \<open>res\<close> before any other event
  is handled. \<^verbatim>\<open>file\<close> is the one the call saw when it started.
\<close>

definition handleSend ::
  "string \<Rightarrow> string \<Rightarrow> proof_descriptor fetched \<Rightarrow> room_state \<Rightarrow> room_state \<times> effect list" where
  "handleSend uuid now res st =
     (if \<not> socket st \<or> (trim (input st) = [] \<and> file_st st = None) then (st, [])
      else
        let (st1, out1) = (if trim (input st) \<noteq> [] then sendText uuid now st else (st, []));
            (st2, out2) = (if file_st st \<noteq> None then sendProof res st1 else (st1, []))
        in (st2, out1 @ out2))"

subsection \<open>Sending (first view, lines 133 to 166)\<close>

text \<open>The object of lines 136 to 140 has no id and no timestamp.\<close>

definition textMessage_v1 :: "room_state \<Rightarrow> message" where
  "textMessage_v1 st =
     \<lparr> m_id = None, m_senderName = displayName st, m_text = Some (input st),
       m_proofUrl = None, m_createdAt = None, m_roomId = roomId st \<rparr>"

definition handleSendMessage_v1 :: "room_state \<Rightarrow> room_state \<times> effect list" where
  "handleSendMessage_v1 st =
     (if trim (input st) = [] \<or> \<not> socket st then (st, [])
      else (st\<lparr>input := []\<rparr>, [Emit (SendMessage (textMessage_v1 st))]))"

text \<open>The response's body is not read here: \<open>'a\<close> is whatever it holds.\<close>

definition handleSendFile_v1 :: "'a fetched \<Rightarrow> room_state \<Rightarrow> room_state \<times> effect list" where
  "handleSendFile_v1 res st =
     (if file_st st = None \<or> \<not> truthy (token st) then (st, [])
      else
        (case res of
           NetworkError err \<Rightarrow> (st, [ConsoleError err, Toast ''Error sending file'' (Some err)])
         | Response status body \<Rightarrow>
             if \<not> ok status
             then (st, [ConsoleError ''Failed to upload file'',
                        Toast ''Error sending file'' (Some ''Failed to upload file'')])
             else (st\<lparr>file_st := None\<rparr>, [Toast ''File sent!'' None])))"

subsection \<open>The view as a transition system\<close>

text \<open>
  What can happen to the second view, one event at a time: the history request ends, the
  socket delivers an event, the user edits the input or the attachment (lines 508, 518 and
  525), the socket effect stores the socket (line 373), the user sends (\<^verbatim>\<open>handleSend\<close> up
  to its \<^verbatim>\<open>await\<close>), and an upload started by an earlier send ends. JavaScript runs each of
  them to completion before the next.
\<close>

datatype action =
  HistoryLoaded "nat \<Rightarrow> string" "history_record list fetched"
| Inbound inbound
| InputChanged string
| FileChanged "string option"
| SocketSet bool
| SendClicked string string
| UploadEnded "proof_descriptor fetched"

fun step :: "(string \<Rightarrow> int option) \<Rightarrow> action \<Rightarrow> room_state \<Rightarrow> room_state" where
  "step getTime (HistoryLoaded clock res) st = fst (fetchMessages getTime clock res st)"
| "step getTime (Inbound ev) st = fst (applyInbound ev st)"
| "step getTime (InputChanged s) st = st\<lparr>input := s\<rparr>"
| "step getTime (FileChanged f) st = st\<lparr>file_st := f\<rparr>"
| "step getTime (SocketSet s) st = st\<lparr>socket := s\<rparr>"
| "step getTime (SendClicked uuid now) st = fst (handleSendSync uuid now st)"
| "step getTime (UploadEnded res) st = fst (sendProof res st)"

fun run :: "(string \<Rightarrow> int option) \<Rightarrow> action list \<Rightarrow> room_state \<Rightarrow> room_state" where
  "run getTime [] st = st"
| "run getTime (a # as) st = run getTime as (step getTime a st)"

subsection \<open>Notions the properties are stated with\<close>

text \<open>
  A fetch fails when it rejects, when the status is not a success, or when the body of the
  response cannot be read; the request alone fails in the first two cases.
\<close>

definition requestFailed :: "'a fetched \<Rightarrow> bool" where
  "requestFailed res =
     (case res of NetworkError err \<Rightarrow> True | Response status body \<Rightarrow> \<not> ok status)"

definition fetchFailed :: "'a fetched \<Rightarrow> bool" where
  "fetchFailed res =
     (case res of NetworkError err \<Rightarrow> True | Response status body \<Rightarrow> \<not> ok status \<or> isl body)"

text \<open>The log has no two entries with the same id.\<close>

definition uniqueIds :: "message list \<Rightarrow> bool" where
  "uniqueIds ms = distinct (map m_id ms)"

text \<open>
  A log is sorted ascending by \<^verbatim>\<open>createdAt\<close> when of any two entries the earlier one in
  the log has the smaller or the same time; an invalid date is below nothing.
\<close>

definition createdAtLe :: "(string \<Rightarrow> int option) \<Rightarrow> message \<Rightarrow> message \<Rightarrow> bool" where
  "createdAtLe getTime a b =
     (case (timeOf getTime a, timeOf getTime b) of
        (Some x, Some y) \<Rightarrow> x \<le> y
      | _ \<Rightarrow> False)"

definition sortedByCreatedAt :: "(string \<Rightarrow> int option) \<Rightarrow> message list \<Rightarrow> bool" where
  "sortedByCreatedAt getTime ms = sorted_wrt (createdAtLe getTime) ms"

definition allDatesValid :: "(string \<Rightarrow> int option) \<Rightarrow> message list \<Rightarrow> bool" where
  "allDatesValid getTime ms = list_all (\<lambda>m. timeOf getTime m \<noteq> None) ms"

text \<open>
  What a run of events may assume of its surroundings: a history that is delivered with a
  success status has no two records with the same id, and the id \<^verbatim>\<open>crypto.randomUUID()\<close>
  hands to a send that reaches the text branch is not in the log at that moment.
\<close>

fun allowed :: "room_state \<Rightarrow> action \<Rightarrow> bool" where
  "allowed st (HistoryLoaded clock (Response status (Inr msgs))) =
     (if ok status then distinct (map r_id msgs) else True)"
| "allowed st (SendClicked uuid now) =
     (if socket st \<and> trim (input st) \<noteq> [] then \<not> hasId (messages st) (Some uuid) else True)"
| "allowed st a = True"

fun admissible :: "(string \<Rightarrow> int option) \<Rightarrow> room_state \<Rightarrow> action list \<Rightarrow> bool" where
  "admissible getTime st [] = True"
| "admissible getTime st (a # as) = (allowed st a \<and> admissible getTime (step getTime a st) as)"

text \<open>
  \<^verbatim>\<open>Date.getTime\<close> on the date strings of the examples below, in milliseconds since 1970;
  every other string of the examples is an invalid date.
\<close>

definition getTimeSample :: "string \<Rightarrow> int option" where
  "getTimeSample s =
     (if s = ''2023-12-31T23:00:00.000Z'' then Some 1704063600000
      else if s = ''2024-01-01T00:00:00.000Z'' then Some 1704067200000
      else if s = ''2024-01-01T00:01:00.000Z'' then Some 1704067260000
      else if s = ''2024-01-01T00:05:00.000Z'' then Some 1704067500000
      else if s = ''2024-01-02T00:00:00.000Z'' then Some 1704153600000
      else if s = ''2024-01-03T00:00:00.000Z'' then Some 1704240000000
      else if s = ''2024-02-01T10:00:00.000Z'' then Some 1706781600000
      else None)"

subsection \<open>The scenario of the specification\<close>

text \<open>
  Alice is in room \<open>r1\<close> with a socket; the history holds Bob's message \<open>m1\<close>, and she has
  typed \<open>yo\<close>.
\<close>

definition m1 :: message where
  "m1 = \<lparr> m_id = Some ''m1'', m_senderName = ''Bob'', m_text = Some ''hi'',
          m_proofUrl = None, m_createdAt = Some ''2024-01-01T00:00:00.000Z'',
          m_roomId = None \<rparr>"

definition aliceRoom :: room_state where
  "aliceRoom = \<lparr> socket = True, messages = [m1], input = ''yo'', file_st = None,
                 roomTitle = ''Dinner'', menuItems = [], onlineUsers = [''Bob''],
                 displayName = ''Alice'',
                 roomId = Some ''r1'', token = Some ''t0k'' \<rparr>"

text \<open>A message of another user who calls herself Alice too, with an id the log lacks.\<close>

definition namesake :: message where
  "namesake = \<lparr> m_id = Some ''m7'', m_senderName = ''Alice'', m_text = Some ''hello'',
                m_proofUrl = None, m_createdAt = Some ''2024-01-01T00:05:00.000Z'',
                m_roomId = Some ''r1'' \<rparr>"

text \<open>A message of Carol that is older than everything in the log.\<close>

definition fromCarol :: message where
  "fromCarol = \<lparr> m_id = Some ''m8'', m_senderName = ''Carol'', m_text = Some ''late'',
                 m_proofUrl = None, m_createdAt = Some ''2023-12-31T23:00:00.000Z'',
                 m_roomId = Some ''r1'' \<rparr>"

text \<open>The echo of Alice's own message \<open>m2\<close>, as the server sends it back.\<close>

definition echoM2 :: message where
  "echoM2 = \<lparr> m_id = Some ''m2'', m_senderName = ''Alice'', m_text = Some ''yo'',
              m_proofUrl = None, m_createdAt = Some ''2024-01-01T00:01:00.000Z'',
              m_roomId = Some ''r1'' \<rparr>"

text \<open>A history record of an older schema, and one of the current schema.\<close>

definition legacyRecord :: history_record where
  "legacyRecord = \<lparr> r_id = Some ''m3'', r_senderName = None, r_sender = Some (Some ''Dana''),
                    r_text = None, r_proofUrl = None, r_fileUrl = Some ''https://cdn/p3.png'',
                    r_createdAt = None \<rparr>"

definition plainRecord :: history_record where
  "plainRecord = \<lparr> r_id = Some ''m4'', r_senderName = Some ''Bob'', r_sender = None,
                   r_text = Some ''paid'', r_proofUrl = Some ''https://cdn/p4.png'',
                   r_fileUrl = Some ''https://cdn/other.png'',
                   r_createdAt = Some ''2024-01-02T00:00:00.000Z'' \<rparr>"

definition anonymousRecord :: history_record where
  "anonymousRecord = \<lparr> r_id = Some ''m5'', r_senderName = Some [], r_sender = Some None,
                       r_text = Some ''?'', r_proofUrl = None, r_fileUrl = None,
                       r_createdAt = Some ''2024-01-03T00:00:00.000Z'' \<rparr>"

definition firstRecord :: history_record where
  "firstRecord = \<lparr> r_id = Some ''m1'', r_senderName = Some ''Bob'', r_sender = None,
                   r_text = Some ''hi'', r_proofUrl = None, r_fileUrl = None,
                   r_createdAt = Some ''2024-01-01T00:00:00.000Z'' \<rparr>"

text \<open>A record whose \<^verbatim>\<open>createdAt\<close> is no date, and one that repeats the id of \<open>plainRecord\<close>.\<close>

definition undatedRecord :: history_record where
  "undatedRecord = \<lparr> r_id = Some ''m6'', r_senderName = Some ''Bob'', r_sender = None,
                     r_text = Some ''when?'', r_proofUrl = None, r_fileUrl = None,
                     r_createdAt = Some ''yesterday'' \<rparr>"

definition repeatedRecord :: history_record where
  "repeatedRecord = \<lparr> r_id = Some ''m4'', r_senderName = Some ''Bob'', r_sender = None,
                      r_text = Some ''paid twice'', r_proofUrl = None, r_fileUrl = None,
                      r_createdAt = Some ''2024-01-03T00:00:00.000Z'' \<rparr>"

text \<open>The clock of the examples stands at one instant.\<close>

definition febClock :: "nat \<Rightarrow> string" where
  "febClock i = ''2024-02-01T10:00:00.000Z''"

text \<open>The view right after it was mounted with Alice's credentials.\<close>

definition freshRoom :: room_state where
  "freshRoom = \<lparr> socket = False, messages = [], input = [], file_st = None,
                 roomTitle = [], menuItems = [], onlineUsers = [], displayName = ''Alice'',
                 roomId = Some ''r1'', token = Some ''t0k'' \<rparr>"

text \<open>What the upload endpoint answers for a stored proof.\<close>

definition storedProof :: proof_descriptor where
  "storedProof = \<lparr> p_id = Some ''p1'', p_fileUrl = Some ''https://cdn/p1.png'',
                   p_createdAt = Some ''2024-01-01T00:05:00.000Z'' \<rparr>"

definition aliceSession :: "action list" where
  "aliceSession =
     [ HistoryLoaded febClock (Response 200 (Inr [plainRecord, legacyRecord])),
       Inbound (ReceiveMessage fromCarol),
       SocketSet True,
       InputChanged ''yo'',
       FileChanged (Some ''receipt.png''),
       SendClicked ''m2'' ''2024-01-01T00:01:00.000Z'',
       Inbound (ReceiveMessage echoM2),
       Inbound (ReceiveProof fromCarol),
       UploadEnded (Response 201 (Inr storedProof)),
       Inbound (ReceiveProof (proofMessage storedProof freshRoom)) ]"

text \<open>
  The text an engine gives the two TypeErrors, a room with a menu of a bare name and a
  priced item, and a room whose menu is a string.
\<close>

definition engineText :: "fault \<Rightarrow> string" where
  "engineText f =
     (case f of
        NotAFunction \<Rightarrow> ''(room.menu || []).map is not a function''
      | NullItem i \<Rightarrow> ''Cannot read properties of null (reading 'name')'')"

definition dinner :: room_json where
  "dinner = \<lparr> rj_title = ''Dinner'',
              rj_menu = JArr [JStr ''Bread'',
                              JObj [(''name'', JStr ''Pizza''), (''price'', JNum 12)]] \<rparr>"

definition brokenMenu :: room_json where
  "brokenMenu = \<lparr> rj_title = ''Lunch'', rj_menu = JStr ''Pizza'' \<rparr>"

section \<open>Properties\<close>

subsection \<open>Facts about the log shared by the proofs\<close>

lemma hasId_append: "hasId (xs @ ys) i = (hasId xs i \<or> hasId ys i)"
  by (auto simp: hasId_def list_ex_iff)

lemma hasId_Cons: "hasId (m # xs) i = (m_id m = i \<or> hasId xs i)"
  by (auto simp: hasId_def)

lemma hasId_Nil: "\<not> hasId [] i"
  by (simp add: hasId_def)

lemma hasId_set: "hasId xs i = (i \<in> set (map m_id xs))"
  by (auto simp: hasId_def list_ex_iff)

lemma filter_id_absent: "\<not> hasId xs i \<Longrightarrow> filter (\<lambda>m. m_id m = i) xs = []"
  by (auto simp: hasId_def list_ex_iff filter_empty_conv)

lemma messages_sendText:
  "messages (fst (sendText uuid now st)) = messages st @ [textMessage uuid now st]"
  by (simp add: sendText_def Let_def)

lemma sendProof_log:
  "messages (fst (sendProof res st)) = messages st \<or>
   (\<exists>p. messages (fst (sendProof res st)) = messages st @ [p] \<and>
        \<not> hasId (messages st) (m_id p))"
  by (simp add: sendProof_def Let_def split: sum.splits)

lemma handleSend_log:
  assumes "socket st" "trim (input st) \<noteq> []"
  shows "messages (fst (handleSend uuid now res st)) = messages st @ [textMessage uuid now st] \<or>
         (\<exists>p. messages (fst (handleSend uuid now res st))
                = messages st @ [textMessage uuid now st, p] \<and>
              \<not> hasId (messages st @ [textMessage uuid now st]) (m_id p))"
proof (cases "file_st st = None")
  case True
  with assms show ?thesis
    by (simp add: handleSend_def messages_sendText split: prod.splits)
next
  case False
  have eq: "handleSend uuid now res st =
        (fst (sendProof res (fst (sendText uuid now st))),
         snd (sendText uuid now st) @ snd (sendProof res (fst (sendText uuid now st))))"
    using assms False by (simp add: handleSend_def split: prod.splits)
  show ?thesis
    using sendProof_log [of res "fst (sendText uuid now st)"]
    by (auto simp: eq messages_sendText)
qed

lemma fetchRoom_messages: "messages (fst (fetchRoom describe res st)) = messages st"
  by (simp add: fetchRoom_def split: sum.splits)

lemma normalizeAll_upt:
  "normalizeAll clock msgs
     = map (\<lambda>i. normalizeMessage (clock i) (msgs ! i)) [0..<length msgs]"
  by (auto intro!: nth_equalityI simp: normalizeAll_def nth_enumerate_eq)

lemma settle_failed: "fetchFailed res \<Longrightarrow> \<exists>err. settle failed res = Inl err"
  by (auto simp: fetchFailed_def settle_def isl_def split: fetched.splits)

lemma uniqueIds_snoc: "uniqueIds (xs @ [m]) = (uniqueIds xs \<and> \<not> hasId xs (m_id m))"
  by (auto simp: uniqueIds_def hasId_set)

lemma ids_enumerate:
  "map (m_id \<circ> (\<lambda>(i, msg). normalizeMessage (clock i) msg)) (enumerate n msgs)
     = map r_id msgs"
  by (induction msgs arbitrary: n) (auto simp: normalizeMessage_def)

lemma ids_normalizeAll: "map m_id (normalizeAll clock msgs) = map r_id msgs"
  by (simp add: normalizeAll_def ids_enumerate)

subsection \<open>Facts about the sort\<close>

lemma mset_insertBy: "mset (insertBy cmp x xs) = add_mset x (mset xs)"
  by (induction xs) auto

lemma mset_foldl_insertBy:
  "mset (foldl (\<lambda>acc x. insertBy cmp x acc) acc xs) = mset acc + mset xs"
  by (induction xs arbitrary: acc) (auto simp: mset_insertBy)

lemma mset_sortBy: "mset (sortBy cmp xs) = mset xs"
  by (simp add: sortBy_def mset_foldl_insertBy)

lemma set_insertBy: "set (insertBy cmp x xs) = insert x (set xs)"
  using mset_insertBy [of cmp x xs] by (metis set_mset_add_mset_insert set_mset_mset)

lemma list_all_insertBy: "list_all P (insertBy cmp x xs) = (P x \<and> list_all P xs)"
  by (auto simp: list_all_iff set_insertBy)

lemma sorted_insertBy:
  assumes "timeOf gt x \<noteq> None" and "list_all (\<lambda>m. timeOf gt m \<noteq> None) xs"
    and "sorted_wrt (createdAtLe gt) xs"
  shows "sorted_wrt (createdAtLe gt) (insertBy (compareCreatedAt gt) x xs)"
  using assms
proof (induction xs)
  case Nil
  then show ?case by simp
next
  case (Cons y ys)
  from Cons.prems obtain tx ty
    where tx: "timeOf gt x = Some tx" and ty: "timeOf gt y = Some ty"
    by auto
  show ?case
  proof (cases "compareCreatedAt gt x y < 0")
    case True
    then have less: "tx < ty"
      by (simp add: compareCreatedAt_def tx ty)
    then have "createdAtLe gt x z" if "createdAtLe gt y z" for z
      using that by (auto simp: createdAtLe_def tx ty split: option.splits)
    with True Cons.prems less show ?thesis
      by (auto simp: createdAtLe_def tx ty)
  next
    case False
    then have "ty \<le> tx"
      by (simp add: compareCreatedAt_def tx ty)
    then have "createdAtLe gt y x"
      by (simp add: createdAtLe_def tx ty)
    with False Cons show ?thesis
      by (auto simp: set_insertBy)
  qed
qed

lemma sorted_foldl_insertBy:
  assumes "list_all (\<lambda>m. timeOf gt m \<noteq> None) xs"
    and "list_all (\<lambda>m. timeOf gt m \<noteq> None) acc"
    and "sorted_wrt (createdAtLe gt) acc"
  shows "sorted_wrt (createdAtLe gt)
           (foldl (\<lambda>acc x. insertBy (compareCreatedAt gt) x acc) acc xs)"
  using assms
proof (induction xs arbitrary: acc)
  case Nil
  then show ?case by simp
next
  case (Cons x xs)
  then show ?case
    by (simp add: sorted_insertBy list_all_insertBy)
qed

lemma sorted_sortBy:
  "allDatesValid gt xs \<Longrightarrow> sortedByCreatedAt gt (sortBy (compareCreatedAt gt) xs)"
  by (simp add: allDatesValid_def sortedByCreatedAt_def sortBy_def sorted_foldl_insertBy)

lemma uniqueIds_sortBy: "uniqueIds (sortBy cmp xs) = uniqueIds xs"
proof -
  have "mset (map m_id (sortBy cmp xs)) = mset (map m_id xs)"
    by (simp only: mset_map mset_sortBy)
  then show ?thesis
    unfolding uniqueIds_def by (rule mset_eq_imp_distinct_iff)
qed

subsection \<open>Every event keeps the ids of the log apart\<close>

lemma step_uniqueIds:
  assumes "uniqueIds (messages st)" and "allowed st a"
  shows "uniqueIds (messages (step gt a st))"
proof (cases a)
  case (HistoryLoaded clock res)
  show ?thesis
  proof (cases "settle ''Failed to fetch messages'' res")
    case (Inl err)
    with assms HistoryLoaded show ?thesis
      by (simp add: fetchMessages_def)
  next
    case (Inr msgs)
    then obtain status where "res = Response status (Inr msgs)" and "ok status"
      by (auto simp: settle_def split: fetched.splits if_splits)
    with assms HistoryLoaded Inr show ?thesis
      by (simp add: fetchMessages_def uniqueIds_sortBy) (simp add: uniqueIds_def ids_normalizeAll)
  qed
next
  case (Inbound ev)
  with assms show ?thesis
    by (cases ev) (auto simp: uniqueIds_snoc)
next
  case (SendClicked uuid now)
  with assms show ?thesis
    by (auto simp: handleSendSync_def messages_sendText uniqueIds_snoc textMessage_def)
next
  case (UploadEnded res)
  with assms sendProof_log [of res st] show ?thesis
    by (auto simp: uniqueIds_snoc)
qed (use assms in auto)

subsection \<open>History records are normalised\<close>

text \<open>
  C9. Every history record is brought into the Message shape when it is loaded: the
  attachment URL is \<^verbatim>\<open>proofUrl\<close> when that is set and \<^verbatim>\<open>fileUrl\<close> otherwise; the sender
  name is \<^verbatim>\<open>senderName\<close>, else \<^verbatim>\<open>sender.name\<close>, else the default \<^verbatim>\<open>Unknown\<close>; a missing
  \<^verbatim>\<open>createdAt\<close> is replaced by the timestamp generated at load time. The log the first
  view loads is the list of the normalised records, the record of index \<open>i\<close> normalised
  with the clock's reading \<open>clock i\<close>; the log the second view loads holds exactly the
  same entries, each as often, in sorted order.
\<close>

theorem C9_history_normalized:
  "(truthy (r_proofUrl msg) \<longrightarrow> m_proofUrl (normalizeMessage now msg) = r_proofUrl msg) \<and>
   (\<not> truthy (r_proofUrl msg) \<longrightarrow> m_proofUrl (normalizeMessage now msg) = r_fileUrl msg) \<and>
   (truthy (r_senderName msg) \<longrightarrow>
      Some (m_senderName (normalizeMessage now msg)) = r_senderName msg) \<and>
   (\<not> truthy (r_senderName msg) \<and> truthy (senderNameOf (r_sender msg)) \<longrightarrow>
      Some (m_senderName (normalizeMessage now msg)) = senderNameOf (r_sender msg)) \<and>
   (\<not> truthy (r_senderName msg) \<and> \<not> truthy (senderNameOf (r_sender msg)) \<longrightarrow>
      m_senderName (normalizeMessage now msg) = ''Unknown'') \<and>
   (r_createdAt msg = None \<longrightarrow> m_createdAt (normalizeMessage now msg) = Some now) \<and>
   (truthy (r_createdAt msg) \<longrightarrow> m_createdAt (normalizeMessage now msg) = r_createdAt msg) \<and>
   m_id (normalizeMessage now msg) = r_id msg \<and>
   m_text (normalizeMessage now msg) = r_text msg \<and>
   (i < length msgs \<longrightarrow>
      normalizeAll clock msgs ! i = normalizeMessage (clock i) (msgs ! i)) \<and>
   length (normalizeAll clock msgs) = length msgs \<and>
   (ok status \<longrightarrow>
      messages (fst (fetchMessages_v1 clock (Response status (Inr msgs)) st))
        = map (\<lambda>i. normalizeMessage (clock i) (msgs ! i)) [0..<length msgs] \<and>
      mset (messages (fst (fetchMessages getTime clock (Response status (Inr msgs)) st)))
        = mset (map (\<lambda>i. normalizeMessage (clock i) (msgs ! i)) [0..<length msgs]))"
proof -
  have loaders: "ok status \<longrightarrow>
      messages (fst (fetchMessages_v1 clock (Response status (Inr msgs)) st))
        = map (\<lambda>i. normalizeMessage (clock i) (msgs ! i)) [0..<length msgs] \<and>
      mset (messages (fst (fetchMessages getTime clock (Response status (Inr msgs)) st)))
        = mset (map (\<lambda>i. normalizeMessage (clock i) (msgs ! i)) [0..<length msgs])"
    by (simp add: fetchMessages_def fetchMessages_v1_def settle_def mset_sortBy
        flip: normalizeAll_upt)
  have fields: "(truthy (r_proofUrl msg) \<longrightarrow> m_proofUrl (normalizeMessage now msg) = r_proofUrl msg) \<and>
   (\<not> truthy (r_proofUrl msg) \<longrightarrow> m_proofUrl (normalizeMessage now msg) = r_fileUrl msg) \<and>
   (truthy (r_senderName msg) \<longrightarrow>
      Some (m_senderName (normalizeMessage now msg)) = r_senderName msg) \<and>
   (\<not> truthy (r_senderName msg) \<and> truthy (senderNameOf (r_sender msg)) \<longrightarrow>
      Some (m_senderName (normalizeMessage now msg)) = senderNameOf (r_sender msg)) \<and>
   (\<not> truthy (r_senderName msg) \<and> \<not> truthy (senderNameOf (r_sender msg)) \<longrightarrow>
      m_senderName (normalizeMessage now msg) = ''Unknown'') \<and>
   (r_createdAt msg = None \<longrightarrow> m_createdAt (normalizeMessage now msg) = Some now) \<and>
   (truthy (r_createdAt msg) \<longrightarrow> m_createdAt (normalizeMessage now msg) = r_createdAt msg) \<and>
   m_id (normalizeMessage now msg) = r_id msg \<and>
   m_text (normalizeMessage now msg) = r_text msg \<and>
   (i < length msgs \<longrightarrow>
      normalizeAll clock msgs ! i = normalizeMessage (clock i) (msgs ! i)) \<and>
   length (normalizeAll clock msgs) = length msgs"
    by (auto simp: normalizeMessage_def normalizeAll_def js_or_def js_or_str_def truthy_def
      nth_enumerate_eq split: option.splits)
  from fields loaders show ?thesis
    by blast
qed

theorem C9_history_normalized_witness:
  "m_proofUrl (normalizeMessage ''2024-02-01T10:00:00.000Z'' legacyRecord)
     = Some ''https://cdn/p3.png'' \<and>
   m_senderName (normalizeMessage ''2024-02-01T10:00:00.000Z'' legacyRecord) = ''Dana'' \<and>
   m_createdAt (normalizeMessage ''2024-02-01T10:00:00.000Z'' legacyRecord)
     = Some ''2024-02-01T10:00:00.000Z'' \<and>
   m_proofUrl (normalizeMessage ''2024-02-01T10:00:00.000Z'' plainRecord)
     = Some ''https://cdn/p4.png'' \<and>
   m_senderName (normalizeMessage ''2024-02-01T10:00:00.000Z'' plainRecord) = ''Bob'' \<and>
   m_createdAt (normalizeMessage ''2024-02-01T10:00:00.000Z'' plainRecord)
     = Some ''2024-01-02T00:00:00.000Z'' \<and>
   m_senderName (normalizeMessage ''2024-02-01T10:00:00.000Z'' anonymousRecord) = ''Unknown'' \<and>
   normalizeAll febClock [plainRecord, legacyRecord] ! 1 =
     normalizeMessage (febClock 1) legacyRecord \<and>
   ok 200 \<and>
   messages (fst (fetchMessages_v1 febClock (Response 200 (Inr [plainRecord, legacyRecord]))
      freshRoom))
     = [normalizeMessage (febClock 0) plainRecord, normalizeMessage (febClock 1) legacyRecord] \<and>
   mset (messages (fst (fetchMessages getTimeSample febClock
      (Response 200 (Inr [plainRecord, legacyRecord])) freshRoom)))
     = {#normalizeMessage (febClock 0) plainRecord, normalizeMessage (febClock 1) legacyRecord#}"
proof -
  have k: "ok 200"
    by (simp add: ok_def)
  have u: "[0..<length [plainRecord, legacyRecord]] = [0, 1]"
    by (simp add: upt_rec)
  from C9_history_normalized
          [of legacyRecord "''2024-02-01T10:00:00.000Z''" 1 "[plainRecord, legacyRecord]"
              febClock 200 freshRoom getTimeSample]
        C9_history_normalized
          [of plainRecord "''2024-02-01T10:00:00.000Z''" 0 "[]" "\<lambda>i. []"]
        C9_history_normalized
          [of anonymousRecord "''2024-02-01T10:00:00.000Z''" 0 "[]" "\<lambda>i. []"]
        k
  show ?thesis
    by (simp add: legacyRecord_def plainRecord_def anonymousRecord_def truthy_def
      senderNameOf_def u)
qed

subsection \<open>Events of the socket\<close>

text \<open>
  C10. A \<^verbatim>\<open>receiveMessage\<close> event whose sender name is the local display name is dropped:
  the state, and with it the log, stays as it is, whatever the id of the event. So a text
  message of another user with the same display name never reaches the log.
\<close>

theorem C10_own_name_discarded:
  "m_senderName msg = displayName st \<Longrightarrow> applyInbound (ReceiveMessage msg) st = (st, [])"
  by simp

theorem C10_own_name_discarded_witness:
  "m_senderName namesake = displayName aliceRoom \<and>
   \<not> hasId (messages aliceRoom) (m_id namesake) \<and>
   applyInbound (ReceiveMessage namesake) aliceRoom = (aliceRoom, [])"
  using C10_own_name_discarded [of namesake aliceRoom]
  by (simp add: namesake_def aliceRoom_def m1_def hasId_def)

text \<open>
  C5, as the claim states it, fails: a \<^verbatim>\<open>receiveMessage\<close> event with a new id is not
  appended when its sender name is the local display name; the log keeps its length.
\<close>

theorem C5_new_id_not_appended:
  "\<not> hasId (messages aliceRoom) (m_id namesake) \<and>
   length (messages (fst (applyInbound (ReceiveMessage namesake) aliceRoom)))
     \<noteq> Suc (length (messages aliceRoom))"
  by (simp add: namesake_def aliceRoom_def m1_def hasId_def)

text \<open>
  C5, amended. On a log of length N, a \<^verbatim>\<open>receiveMessage\<close> event whose id is not in the log
  and whose sender name is not the local display name, and a \<^verbatim>\<open>receiveProof\<close> event whose
  id is not in the log, give a log of length N+1: the old log with the new message at its
  end, whatever its \<^verbatim>\<open>createdAt\<close>.
\<close>

theorem C5_new_id_appended_at_tail:
  assumes "\<not> hasId (messages st) (m_id msg)"
  shows "(m_senderName msg \<noteq> displayName st \<longrightarrow>
            messages (fst (applyInbound (ReceiveMessage msg) st)) = messages st @ [msg] \<and>
            length (messages (fst (applyInbound (ReceiveMessage msg) st)))
              = Suc (length (messages st)) \<and>
            last (messages (fst (applyInbound (ReceiveMessage msg) st))) = msg) \<and>
         messages (fst (applyInbound (ReceiveProof msg) st)) = messages st @ [msg] \<and>
         length (messages (fst (applyInbound (ReceiveProof msg) st)))
           = Suc (length (messages st)) \<and>
         last (messages (fst (applyInbound (ReceiveProof msg) st))) = msg"
  using assms by simp

theorem C5_new_id_appended_at_tail_witness:
  "\<not> hasId (messages aliceRoom) (m_id fromCarol) \<and>
   m_senderName fromCarol \<noteq> displayName aliceRoom \<and>
   messages (fst (applyInbound (ReceiveMessage fromCarol) aliceRoom)) = [m1, fromCarol] \<and>
   messages (fst (applyInbound (ReceiveProof fromCarol) aliceRoom)) = [m1, fromCarol]"
proof -
  have new: "\<not> hasId (messages aliceRoom) (m_id fromCarol)"
    by (simp add: fromCarol_def aliceRoom_def m1_def hasId_def)
  have other: "m_senderName fromCarol \<noteq> displayName aliceRoom"
    by (simp add: fromCarol_def aliceRoom_def)
  have log: "messages aliceRoom = [m1]"
    by (simp add: aliceRoom_def)
  from C5_new_id_appended_at_tail [OF new] other log new show ?thesis
    by simp
qed

subsection \<open>Sending a text message\<close>

text \<open>
  C2. When the local user has sent a text message, which put it into the log under the
  generated id, a \<^verbatim>\<open>receiveMessage\<close> event with that id changes nothing: the log holds
  exactly one entry with the id, be the event handled after the whole of \<^verbatim>\<open>handleSend\<close> or
  right after its text branch. The generated id is one the log did not hold before.
\<close>

theorem C2_self_echo_one_entry:
  assumes "socket st" and "trim (input st) \<noteq> []"
    and "\<not> hasId (messages st) (Some uuid)" and "m_id echo = Some uuid"
  shows "messages (fst (applyInbound (ReceiveMessage echo) (fst (handleSend uuid now res st))))
           = messages (fst (handleSend uuid now res st)) \<and>
         length (filter (\<lambda>m. m_id m = Some uuid)
           (messages (fst (applyInbound (ReceiveMessage echo)
              (fst (handleSend uuid now res st)))))) = 1 \<and>
         messages (fst (applyInbound (ReceiveMessage echo) (fst (handleSendSync uuid now st))))
           = messages st @ [textMessage uuid now st]"
proof -
  let ?sent = "fst (handleSend uuid now res st)"
  have tid: "m_id (textMessage uuid now st) = Some uuid"
    by (simp add: textMessage_def)
  have none: "filter (\<lambda>m. m_id m = Some uuid) (messages st) = []"
    using assms(3) by (rule filter_id_absent)
  from handleSend_log [OF assms(1,2), of uuid now res]
  have one: "length (filter (\<lambda>m. m_id m = Some uuid) (messages ?sent)) = 1"
    and there: "hasId (messages ?sent) (Some uuid)"
    by (auto simp: tid none hasId_append hasId_Cons hasId_Nil)
  have "fst (applyInbound (ReceiveMessage echo) ?sent) = ?sent"
    using there assms(4) by simp
  moreover
  have "messages (fst (applyInbound (ReceiveMessage echo) (fst (handleSendSync uuid now st))))
           = messages st @ [textMessage uuid now st]"
    using assms(1,2,4)
    by (simp add: handleSendSync_def messages_sendText hasId_append hasId_Cons tid)
  ultimately show ?thesis
    using one by simp
qed

text \<open>The scenario: history \<open>m1\<close>, Alice sends \<open>m2\<close>, the channel echoes \<open>m2\<close>: two entries.\<close>

theorem C2_self_echo_one_entry_witness:
  "socket aliceRoom \<and> trim (input aliceRoom) \<noteq> [] \<and>
   \<not> hasId (messages aliceRoom) (Some ''m2'') \<and> m_id echoM2 = Some ''m2'' \<and>
   length (filter (\<lambda>m. m_id m = Some ''m2'')
     (messages (fst (applyInbound (ReceiveMessage echoM2)
        (fst (handleSend ''m2'' ''2024-01-01T00:01:00.000Z'' (NetworkError ''offline'')
           aliceRoom)))))) = 1 \<and>
   length (messages (fst (applyInbound (ReceiveMessage echoM2)
        (fst (handleSend ''m2'' ''2024-01-01T00:01:00.000Z'' (NetworkError ''offline'')
           aliceRoom))))) = 2"
proof -
  have s: "socket aliceRoom"
    by (simp add: aliceRoom_def)
  have t: "trim (input aliceRoom) \<noteq> []"
    by (simp add: aliceRoom_def trim_def isWhiteSpace_def)
  have f: "\<not> hasId (messages aliceRoom) (Some ''m2'')"
    by (simp add: aliceRoom_def m1_def hasId_def)
  have e: "m_id echoM2 = Some ''m2''"
    by (simp add: echoM2_def)
  have sent: "length (messages (fst (handleSend ''m2'' ''2024-01-01T00:01:00.000Z''
      (NetworkError ''offline'') aliceRoom))) = 2"
    by (simp add: handleSend_def sendText_def aliceRoom_def Let_def trim_def isWhiteSpace_def)
  from C2_self_echo_one_entry
         [OF s t f e, of "''2024-01-01T00:01:00.000Z''" "NetworkError ''offline''"]
    s t f e sent
  show ?thesis
    by (auto simp del: applyInbound.simps)
qed

text \<open>
  C3, as the claim states it, fails: an input of two blanks is a non-empty string, and
  \<^verbatim>\<open>handleSend\<close> neither appends nor emits anything for it; nor does it for the input
  \<open>yo\<close> while the view has no socket yet. The first view appends nothing for any input.
\<close>

theorem C3_blank_input_not_sent:
  "input (aliceRoom\<lparr>input := [CHR '' '', CHR '' '']\<rparr>) \<noteq> [] \<and>
   handleSend ''m2'' ''2024-01-01T00:01:00.000Z'' (NetworkError ''offline'')
     (aliceRoom\<lparr>input := [CHR '' '', CHR '' '']\<rparr>)
     = (aliceRoom\<lparr>input := [CHR '' '', CHR '' '']\<rparr>, []) \<and>
   input (aliceRoom\<lparr>socket := False\<rparr>) \<noteq> [] \<and>
   handleSend ''m2'' ''2024-01-01T00:01:00.000Z'' (NetworkError ''offline'')
     (aliceRoom\<lparr>socket := False\<rparr>) = (aliceRoom\<lparr>socket := False\<rparr>, []) \<and>
   input aliceRoom = ''yo'' \<and> socket aliceRoom \<and>
   messages (fst (handleSendMessage_v1 aliceRoom)) = messages aliceRoom"
  by (simp add: aliceRoom_def handleSend_def handleSendMessage_v1_def trim_def
      isWhiteSpace_def)

text \<open>
  C3, amended. When the view holds a socket and the input is not empty after trimming,
  \<^verbatim>\<open>handleSend\<close> builds a Message with the generated id, the local sender name, the
  trimmed input as text and the current timestamp, appends it to the log, then emits
  \<^verbatim>\<open>sendMessage\<close> with it and clears the input; no answer of the network is involved, and
  the same two calls open the list of calls when an attachment is sent along. While there
  is no socket, \<^verbatim>\<open>handleSend\<close> does nothing. For an input that is empty after trimming no
  text message is appended and no \<^verbatim>\<open>sendMessage\<close> is emitted: \<^verbatim>\<open>handleSend\<close> then does what
  its file branch does when there is a socket and an attachment, and nothing otherwise.
  The first view's \<^verbatim>\<open>handleSendMessage\<close> never appends to the log: with a socket and an
  input that is not empty after trimming it emits \<^verbatim>\<open>sendMessage\<close> with a message that has
  no id, and otherwise it does nothing.
\<close>

theorem C3_text_appended_then_emitted:
  "(socket st \<and> trim (input st) \<noteq> [] \<longrightarrow>
      handleSendSync uuid now st =
        (st\<lparr>messages := messages st @ [textMessage uuid now st], input := []\<rparr>,
         [Appended (textMessage uuid now st),
          Emit (SendMessage (textMessage uuid now st))]) \<and>
      (\<exists>rest. snd (handleSend uuid now res st) =
         Appended (textMessage uuid now st) #
         Emit (SendMessage (textMessage uuid now st)) # rest) \<and>
      textMessage uuid now st \<in> set (messages (fst (handleSend uuid now res st))) \<and>
      m_id (textMessage uuid now st) = Some uuid \<and>
      m_senderName (textMessage uuid now st) = displayName st \<and>
      m_createdAt (textMessage uuid now st) = Some now \<and>
      m_text (textMessage uuid now st) = Some (trim (input st)) \<and>
      handleSendMessage_v1 st
        = (st\<lparr>input := []\<rparr>, [Emit (SendMessage (textMessage_v1 st))]) \<and>
      m_id (textMessage_v1 st) = None) \<and>
   (\<not> socket st \<longrightarrow>
      handleSend uuid now res st = (st, []) \<and>
      handleSendSync uuid now st = (st, []) \<and>
      handleSendMessage_v1 st = (st, [])) \<and>
   (trim (input st) = [] \<longrightarrow>
      handleSendSync uuid now st = (st, []) \<and>
      handleSend uuid now res st
        = (if socket st \<and> file_st st \<noteq> None then sendProof res st else (st, [])) \<and>
      (\<forall>m. Emit (SendMessage m) \<notin> set (snd (handleSend uuid now res st))) \<and>
      handleSendMessage_v1 st = (st, [])) \<and>
   messages (fst (handleSendMessage_v1 st)) = messages st \<and>
   (\<forall>m. Appended m \<notin> set (snd (handleSendMessage_v1 st)))"
proof -
  have sent: "socket st \<and> trim (input st) \<noteq> [] \<longrightarrow>
      handleSendSync uuid now st =
        (st\<lparr>messages := messages st @ [textMessage uuid now st], input := []\<rparr>,
         [Appended (textMessage uuid now st),
          Emit (SendMessage (textMessage uuid now st))]) \<and>
      (\<exists>rest. snd (handleSend uuid now res st) =
         Appended (textMessage uuid now st) #
         Emit (SendMessage (textMessage uuid now st)) # rest) \<and>
      textMessage uuid now st \<in> set (messages (fst (handleSend uuid now res st))) \<and>
      m_id (textMessage uuid now st) = Some uuid \<and>
      m_senderName (textMessage uuid now st) = displayName st \<and>
      m_createdAt (textMessage uuid now st) = Some now \<and>
      m_text (textMessage uuid now st) = Some (trim (input st)) \<and>
      handleSendMessage_v1 st
        = (st\<lparr>input := []\<rparr>, [Emit (SendMessage (textMessage_v1 st))]) \<and>
      m_id (textMessage_v1 st) = None"
  proof (intro impI)
    assume h: "socket st \<and> trim (input st) \<noteq> []"
    then have s: "socket st" and t: "trim (input st) \<noteq> []"
      by blast+
    have "\<exists>rest. snd (handleSend uuid now res st) =
            Appended (textMessage uuid now st) #
            Emit (SendMessage (textMessage uuid now st)) # rest"
      using s t by (simp add: handleSend_def sendText_def Let_def split: prod.splits)
    moreover have "textMessage uuid now st \<in> set (messages (fst (handleSend uuid now res st)))"
      using handleSend_log [OF s t, of uuid now res] by auto
    ultimately show "handleSendSync uuid now st =
        (st\<lparr>messages := messages st @ [textMessage uuid now st], input := []\<rparr>,
         [Appended (textMessage uuid now st),
          Emit (SendMessage (textMessage uuid now st))]) \<and>
      (\<exists>rest. snd (handleSend uuid now res st) =
         Appended (textMessage uuid now st) #
         Emit (SendMessage (textMessage uuid now st)) # rest) \<and>
      textMessage uuid now st \<in> set (messages (fst (handleSend uuid now res st))) \<and>
      m_id (textMessage uuid now st) = Some uuid \<and>
      m_senderName (textMessage uuid now st) = displayName st \<and>
      m_createdAt (textMessage uuid now st) = Some now \<and>
      m_text (textMessage uuid now st) = Some (trim (input st)) \<and>
      handleSendMessage_v1 st
        = (st\<lparr>input := []\<rparr>, [Emit (SendMessage (textMessage_v1 st))]) \<and>
      m_id (textMessage_v1 st) = None"
      using s t
      by (simp add: handleSendSync_def sendText_def Let_def textMessage_def textMessage_v1_def
          handleSendMessage_v1_def)
  qed
  have nosocket: "\<not> socket st \<longrightarrow>
      handleSend uuid now res st = (st, []) \<and>
      handleSendSync uuid now st = (st, []) \<and>
      handleSendMessage_v1 st = (st, [])"
    by (simp add: handleSend_def handleSendSync_def handleSendMessage_v1_def)
  have noproof: "\<forall>m. Emit (SendMessage m) \<notin> set (snd (sendProof res st))"
    by (simp add: sendProof_def Let_def split: sum.splits)
  have blank: "trim (input st) = [] \<longrightarrow>
      handleSendSync uuid now st = (st, []) \<and>
      handleSend uuid now res st
        = (if socket st \<and> file_st st \<noteq> None then sendProof res st else (st, [])) \<and>
      (\<forall>m. Emit (SendMessage m) \<notin> set (snd (handleSend uuid now res st))) \<and>
      handleSendMessage_v1 st = (st, [])"
    using noproof
    by (auto simp: handleSend_def handleSendSync_def handleSendMessage_v1_def
        split: prod.splits)
  have v1: "messages (fst (handleSendMessage_v1 st)) = messages st \<and>
   (\<forall>m. Appended m \<notin> set (snd (handleSendMessage_v1 st)))"
    by (simp add: handleSendMessage_v1_def)
  from sent nosocket blank v1 show ?thesis
    by blast
qed

theorem C3_text_appended_then_emitted_witness:
  "socket aliceRoom \<and> trim (input aliceRoom) \<noteq> [] \<and>
   messages (fst (handleSendSync ''m2'' ''2024-01-01T00:01:00.000Z'' aliceRoom))
     = [m1, textMessage ''m2'' ''2024-01-01T00:01:00.000Z'' aliceRoom] \<and>
   snd (handleSendSync ''m2'' ''2024-01-01T00:01:00.000Z'' aliceRoom)
     = [Appended (textMessage ''m2'' ''2024-01-01T00:01:00.000Z'' aliceRoom),
        Emit (SendMessage (textMessage ''m2'' ''2024-01-01T00:01:00.000Z'' aliceRoom))] \<and>
   m_text (textMessage ''m2'' ''2024-01-01T00:01:00.000Z'' aliceRoom) = Some ''yo'' \<and>
   \<not> socket (aliceRoom\<lparr>socket := False\<rparr>) \<and>
   handleSend ''m2'' ''2024-01-01T00:01:00.000Z'' (Response 201 (Inr storedProof))
     (aliceRoom\<lparr>socket := False\<rparr>) = (aliceRoom\<lparr>socket := False\<rparr>, []) \<and>
   trim (input (aliceRoom\<lparr>input := [CHR '' '', CHR '' ''], file_st := Some ''receipt.png''\<rparr>))
     = [] \<and>
   handleSend ''m2'' ''2024-01-01T00:01:00.000Z'' (Response 201 (Inr storedProof))
     (aliceRoom\<lparr>input := [CHR '' '', CHR '' ''], file_st := Some ''receipt.png''\<rparr>)
     = sendProof (Response 201 (Inr storedProof))
         (aliceRoom\<lparr>input := [CHR '' '', CHR '' ''], file_st := Some ''receipt.png''\<rparr>) \<and>
   map m_id (messages (fst (handleSend ''m2'' ''2024-01-01T00:01:00.000Z''
     (Response 201 (Inr storedProof))
     (aliceRoom\<lparr>input := [CHR '' '', CHR '' ''], file_st := Some ''receipt.png''\<rparr>))))
     = [Some ''m1'', Some ''p1'']"
proof -
  let ?now = "''2024-01-01T00:01:00.000Z''"
  let ?res = "Response 201 (Inr storedProof)"
  let ?off = "aliceRoom\<lparr>socket := False\<rparr>"
  let ?blank = "aliceRoom\<lparr>input := [CHR '' '', CHR '' ''], file_st := Some ''receipt.png''\<rparr>"
  have s: "socket aliceRoom" "\<not> socket ?off" "socket ?blank" "file_st ?blank \<noteq> None"
    by (simp_all add: aliceRoom_def)
  have t: "trim (input aliceRoom) = ''yo''" "trim (input ?blank) = []"
    by (simp_all add: aliceRoom_def trim_def isWhiteSpace_def)
  have l: "messages aliceRoom = [m1]"
    by (simp add: aliceRoom_def)
  have p: "map m_id (messages (fst (sendProof ?res ?blank))) = [Some ''m1'', Some ''p1'']"
    by code_simp
  from C3_text_appended_then_emitted [of aliceRoom "''m2''" ?now ?res] s t l
  have 1: "handleSendSync ''m2'' ?now aliceRoom =
        (aliceRoom\<lparr>messages := [m1] @ [textMessage ''m2'' ?now aliceRoom], input := []\<rparr>,
         [Appended (textMessage ''m2'' ?now aliceRoom),
          Emit (SendMessage (textMessage ''m2'' ?now aliceRoom))])"
    and 2: "m_text (textMessage ''m2'' ?now aliceRoom) = Some ''yo''"
    by simp_all
  from C3_text_appended_then_emitted [of ?off "''m2''" ?now ?res] s
  have 3: "handleSend ''m2'' ?now ?res ?off = (?off, [])"
    by blast
  from C3_text_appended_then_emitted [of ?blank "''m2''" ?now ?res] s t
  have 4: "handleSend ''m2'' ?now ?res ?blank = sendProof ?res ?blank"
    by simp
  from s t 1 2 3 4 p show ?thesis
    by simp
qed

subsection \<open>Presence\<close>

text \<open>
  C7, as the claim states it, fails: \<^verbatim>\<open>userJoined\<close> does not add the name to the online
  users and \<^verbatim>\<open>userLeft\<close> does not remove it.
\<close>

theorem C7_join_and_leave_keep_list:
  "''Carol'' \<noteq> displayName aliceRoom \<and>
   ''Carol'' \<notin> set (onlineUsers (fst (applyInbound (UserJoined ''Carol'') aliceRoom))) \<and>
   ''Bob'' \<in> set (onlineUsers (fst (applyInbound (UserLeft ''Bob'') aliceRoom)))"
  by (simp add: aliceRoom_def)

text \<open>
  C7, amended. The online users are changed by \<^verbatim>\<open>userList\<close> alone, which replaces them by
  the received names without the local display name. \<^verbatim>\<open>userJoined\<close> and \<^verbatim>\<open>userLeft\<close> leave
  the state as it is and show a notice unless the name is the local display name; the
  message events, sending and entering the room leave the online users as they are.
\<close>

theorem C7_presence_only_from_userList:
  "onlineUsers (fst (applyInbound (UserList users) st))
     = filter (\<lambda>u. u \<noteq> displayName st) users \<and>
   fst (applyInbound (UserJoined name) st) = st \<and>
   fst (applyInbound (UserLeft name) st) = st \<and>
   snd (applyInbound (UserJoined name) st)
     = (if name \<noteq> displayName st then [Toast (name @ '' joined the room'') None] else []) \<and>
   snd (applyInbound (UserLeft name) st)
     = (if name \<noteq> displayName st then [Toast (name @ '' left the room'') None] else []) \<and>
   onlineUsers (fst (applyInbound (ReceiveMessage msg) st)) = onlineUsers st \<and>
   onlineUsers (fst (applyInbound (ReceiveProof msg) st)) = onlineUsers st \<and>
   onlineUsers (fst (handleSend uuid now res st)) = onlineUsers st \<and>
   onlineUsers (fst (enterRoom getTime describe clock roomRes msgsRes st)) = onlineUsers st"
  by (simp add: handleSend_def sendText_def sendProof_def enterRoom_def fetchRoom_def
      fetchMessages_def Let_def split: sum.splits prod.splits)

theorem C7_presence_only_from_userList_witness:
  "onlineUsers (fst (applyInbound (UserList [''Bob'', ''Alice'', ''Carol'']) aliceRoom))
     = [''Bob'', ''Carol''] \<and>
   fst (applyInbound (UserJoined ''Carol'') aliceRoom) = aliceRoom \<and>
   fst (applyInbound (UserLeft ''Bob'') aliceRoom) = aliceRoom \<and>
   snd (applyInbound (UserJoined ''Carol'') aliceRoom)
     = [Toast ''Carol joined the room'' None] \<and>
   snd (applyInbound (UserLeft ''Alice'') aliceRoom) = [] \<and>
   onlineUsers (fst (handleSend ''m2'' ''2024-01-01T00:01:00.000Z''
      (NetworkError ''offline'') aliceRoom)) = [''Bob'']"
proof -
  have d: "displayName aliceRoom = ''Alice''" and o: "onlineUsers aliceRoom = [''Bob'']"
    by (simp_all add: aliceRoom_def)
  from C7_presence_only_from_userList
         [of "[''Bob'', ''Alice'', ''Carol'']" aliceRoom "''Carol''" fromCarol "''m2''"
             "''2024-01-01T00:01:00.000Z''" "NetworkError ''offline''"]
       C7_presence_only_from_userList [of "[]" aliceRoom "''Bob''"]
       C7_presence_only_from_userList [of "[]" aliceRoom "''Alice''"]
       d o
  show ?thesis
    by (simp del: applyInbound.simps)
qed

subsection \<open>The ids of the log\<close>

text \<open>
  C1, as the claim states it, fails: the history load puts whatever the response holds
  into the log, so a history with two records of one id gives a log with two entries of
  that id.
\<close>

theorem C1_history_with_repeated_id:
  "\<not> uniqueIds (messages (fst (fetchMessages getTimeSample febClock
       (Response 200 (Inr [plainRecord, repeatedRecord])) freshRoom)))"
  by (simp add: fetchMessages_def settle_def ok_def uniqueIds_sortBy)
     (simp add: uniqueIds_def ids_normalizeAll plainRecord_def repeatedRecord_def)

text \<open>
  C1, amended. Provided every history that is loaded has no two records with the same id,
  and every id generated for a local insert is not in the log at that moment, the log
  never holds two entries with the same id: a log without repeated ids has none after any
  sequence of history loads, socket events, edits of the input and the attachment, sends
  and ended uploads.
\<close>

theorem C1_ids_stay_unique:
  assumes "uniqueIds (messages st)" and "admissible getTime st as"
  shows "uniqueIds (messages (run getTime as st))"
  using assms
  by (induction as arbitrary: st) (auto simp: step_uniqueIds)

theorem C1_ids_stay_unique_witness:
  "uniqueIds (messages freshRoom) \<and> admissible getTimeSample freshRoom aliceSession \<and>
   uniqueIds (messages (run getTimeSample aliceSession freshRoom)) \<and>
   map m_id (messages (run getTimeSample aliceSession freshRoom))
     = [Some ''m4'', Some ''m3'', Some ''m8'', Some ''m2'', Some ''p1'']"
proof -
  have ids: "map m_id (messages (run getTimeSample aliceSession freshRoom))
     = [Some ''m4'', Some ''m3'', Some ''m8'', Some ''m2'', Some ''p1'']"
    by code_simp
  have a: "uniqueIds (messages freshRoom)"
    by (simp add: freshRoom_def uniqueIds_def)
  have b: "admissible getTimeSample freshRoom aliceSession"
    by code_simp
  from C1_ids_stay_unique [OF a b] a b ids show ?thesis
    by simp
qed

subsection \<open>The order of the loaded history\<close>

text \<open>
  C4, as the claim states it, fails: the first view keeps the history in arrival order
  (2 January before 1 January), and in the second view a record whose \<^verbatim>\<open>createdAt\<close> is
  no date leaves the log unsorted.
\<close>

theorem C4_arrival_order_kept_or_date_invalid:
  "\<not> sortedByCreatedAt getTimeSample (messages (fst (fetchMessages_v1 febClock
        (Response 200 (Inr [plainRecord, firstRecord])) freshRoom))) \<and>
   \<not> sortedByCreatedAt getTimeSample (messages (fst (fetchMessages getTimeSample febClock
        (Response 200 (Inr [undatedRecord, firstRecord])) freshRoom)))"
  by code_simp

text \<open>
  C4, amended. In the second view, a history that arrives with a success status and whose
  records all have a valid date once normalised is loaded as a log sorted ascending by
  the time of \<^verbatim>\<open>createdAt\<close>, whatever the arrival order, and the log holds exactly the
  normalised records. The first view loads the normalised records in arrival order.
\<close>

theorem C4_history_sorted_by_time:
  assumes "ok status" and "allDatesValid getTime (normalizeAll clock msgs)"
  shows "sortedByCreatedAt getTime
           (messages (fst (fetchMessages getTime clock (Response status (Inr msgs)) st))) \<and>
         mset (messages (fst (fetchMessages getTime clock (Response status (Inr msgs)) st)))
           = mset (normalizeAll clock msgs) \<and>
         messages (fst (fetchMessages_v1 clock (Response status (Inr msgs)) st))
           = normalizeAll clock msgs"
  using assms
  by (simp add: fetchMessages_def fetchMessages_v1_def settle_def sorted_sortBy mset_sortBy)

theorem C4_history_sorted_by_time_witness:
  "ok 200 \<and>
   allDatesValid getTimeSample
     (normalizeAll febClock [anonymousRecord, firstRecord, plainRecord]) \<and>
   sortedByCreatedAt getTimeSample (messages (fst (fetchMessages getTimeSample febClock
        (Response 200 (Inr [anonymousRecord, firstRecord, plainRecord])) freshRoom))) \<and>
   map m_id (messages (fst (fetchMessages getTimeSample febClock
        (Response 200 (Inr [anonymousRecord, firstRecord, plainRecord])) freshRoom)))
     = [Some ''m1'', Some ''m4'', Some ''m5'']"
proof -
  have a: "ok 200"
    by (simp add: ok_def)
  have b: "allDatesValid getTimeSample
             (normalizeAll febClock [anonymousRecord, firstRecord, plainRecord])"
    by code_simp
  have c: "map m_id (messages (fst (fetchMessages getTimeSample febClock
        (Response 200 (Inr [anonymousRecord, firstRecord, plainRecord])) freshRoom)))
     = [Some ''m1'', Some ''m4'', Some ''m5'']"
    by code_simp
  from C4_history_sorted_by_time [OF a b, of freshRoom] a b c show ?thesis
    by simp
qed

subsection \<open>A failed upload\<close>

text \<open>
  C6. When the upload of a proof fails (the request is rejected, the status is not a
  success, or the answer cannot be read), the file branch leaves the state and so the log
  as it is, emits no \<^verbatim>\<open>sendProof\<close> and reports the failure: the error goes to the console
  and into a notice titled \<^verbatim>\<open>Error sending file\<close>. For \<^verbatim>\<open>handleSend\<close> as a whole the log is
  the one its text branch left, and the only entry it can have appended is the text
  message. The first view never touches the log or the socket when it sends a file, and
  reports a failed request in the same way.
\<close>

theorem C6_failed_upload_adds_nothing:
  assumes "fetchFailed res"
  shows "fst (sendProof res st) = st \<and>
         (\<exists>err. snd (sendProof res st)
            = [ConsoleError err, Toast ''Error sending file'' (Some err)]) \<and>
         messages (fst (handleSend uuid now res st))
           = messages (fst (handleSendSync uuid now st)) \<and>
         (\<forall>m. Emit (SendProof m) \<notin> set (snd (handleSend uuid now res st))) \<and>
         (\<forall>m. Appended m \<in> set (snd (handleSend uuid now res st)) \<longrightarrow>
              m = textMessage uuid now st) \<and>
         (socket st \<and> file_st st \<noteq> None \<longrightarrow>
            (\<exists>err. Toast ''Error sending file'' (Some err)
               \<in> set (snd (handleSend uuid now res st)))) \<and>
         messages (fst (handleSendFile_v1 res st)) = messages st \<and>
         (\<forall>m. Emit (SendProof m) \<notin> set (snd (handleSendFile_v1 res st))) \<and>
         (requestFailed res \<and> file_st st \<noteq> None \<and> truthy (token st) \<longrightarrow>
            (\<exists>err. snd (handleSendFile_v1 res st)
               = [ConsoleError err, Toast ''Error sending file'' (Some err)]))"
proof -
  from settle_failed [OF assms]
  obtain err where e: "settle ''Failed to upload file'' res = Inl err"
    by blast
  have p: "sendProof res st' = (st', [ConsoleError err, Toast ''Error sending file'' (Some err)])"
    for st'
    by (simp add: sendProof_def e)
  show ?thesis
    by (auto simp: p handleSend_def handleSendSync_def sendText_def Let_def
        handleSendFile_v1_def requestFailed_def split: prod.splits fetched.splits)
qed

theorem C6_failed_upload_adds_nothing_witness:
  "fetchFailed (Response 500 (Inl ''unread'') :: proof_descriptor fetched) \<and>
   requestFailed (Response 500 (Inl ''unread'') :: proof_descriptor fetched) \<and>
   socket (aliceRoom\<lparr>input := [], file_st := Some ''receipt.png''\<rparr>) \<and>
   truthy (token (aliceRoom\<lparr>input := [], file_st := Some ''receipt.png''\<rparr>)) \<and>
   messages (fst (handleSend ''m2'' ''2024-01-01T00:01:00.000Z'' (Response 500 (Inl ''unread''))
      (aliceRoom\<lparr>input := [], file_st := Some ''receipt.png''\<rparr>))) = [m1] \<and>
   (\<exists>err. Toast ''Error sending file'' (Some err) \<in> set (snd
      (handleSend ''m2'' ''2024-01-01T00:01:00.000Z'' (Response 500 (Inl ''unread''))
        (aliceRoom\<lparr>input := [], file_st := Some ''receipt.png''\<rparr>)))) \<and>
   (\<exists>err. snd (handleSendFile_v1 (Response 500 (Inl ''unread'') :: proof_descriptor fetched)
        (aliceRoom\<lparr>input := [], file_st := Some ''receipt.png''\<rparr>))
      = [ConsoleError err, Toast ''Error sending file'' (Some err)])"
proof -
  let ?res = "Response 500 (Inl ''unread'') :: proof_descriptor fetched"
  let ?st = "aliceRoom\<lparr>input := [], file_st := Some ''receipt.png''\<rparr>"
  have f: "fetchFailed ?res" and r: "requestFailed ?res"
    by (simp_all add: fetchFailed_def requestFailed_def ok_def)
  have s: "socket ?st" "file_st ?st \<noteq> None" "truthy (token ?st)"
    by (simp_all add: aliceRoom_def truthy_def)
  have l: "messages (fst (handleSendSync ''m2'' ''2024-01-01T00:01:00.000Z'' ?st)) = [m1]"
    by (simp add: handleSendSync_def aliceRoom_def trim_def)
  from C6_failed_upload_adds_nothing [OF f, of ?st "''m2''" "''2024-01-01T00:01:00.000Z''"]
    f r s l
  show ?thesis
    by simp
qed

subsection \<open>Failures while entering a room\<close>

text \<open>
  C8, as the claim states it, fails: a history request that fails is written to the
  console only, with no notice and no navigation; a credential that the server rejects
  with status 401 leads to \<^verbatim>\<open>/rooms\<close>, not to \<^verbatim>\<open>/login\<close>; and a missing room (404) is
  reported by the second view exactly as any other failure.
\<close>

theorem C8_failed_history_only_logged:
  "truthy (token aliceRoom) \<and>
   fetchMessages getTimeSample febClock (NetworkError ''Failed to fetch'') aliceRoom
     = (aliceRoom, [ConsoleError ''Failed to fetch'']) \<and>
   fetchMessages_v1 febClock (NetworkError ''Failed to fetch'') aliceRoom
     = (aliceRoom, [ConsoleError ''Failed to fetch'']) \<and>
   enterRoom getTimeSample engineText febClock
       (Response 401 (Inl ''unread'')) (Response 401 (Inl ''unread'')) aliceRoom
     = (aliceRoom, [Toast ''Error'' (Some ''Failed to fetch room''), Navigate ''/rooms'',
                    ConsoleError ''Failed to fetch messages'']) \<and>
   fetchRoom engineText (Response 404 (Inl ''unread'')) aliceRoom
     = fetchRoom engineText (Response 500 (Inl ''unread'')) aliceRoom"
  by (simp add: aliceRoom_def enterRoom_def fetchRoom_def fetchMessages_def
      fetchMessages_v1_def settle_def ok_def truthy_def)

text \<open>
  C8, amended. Without a token the view shows the notice \<^verbatim>\<open>Unauthorized\<close> and navigates to
  \<^verbatim>\<open>/login\<close>, and nothing is fetched. With a token, a history request that fails (rejected,
  a status that is not a success, an unreadable body) is written to the console and
  leaves the state as it is: entering the room then keeps the log and adds only that
  console entry to what the room request did. A room request that fails in one of these
  ways shows the notice \<^verbatim>\<open>Error\<close> with the error's message, navigates to \<^verbatim>\<open>/rooms\<close> and
  leaves the state as it is; when the room was read but its menu cannot be mapped (it is
  not an array, or an item is \<^verbatim>\<open>null\<close>), the second view has stored the title before it
  shows the same notice and navigates. Every status that is not a success, 401 and 404
  alike, gives the same message; the first view alone reports a room that is not in the
  fetched list, as \<^verbatim>\<open>Room not found\<close>.
\<close>

theorem C8_load_failures:
  "(\<not> truthy (token st) \<longrightarrow>
      enterRoom getTime describe clock roomRes msgsRes st
        = (st, [Toast ''Unauthorized'' (Some ''Please log in.''), Navigate ''/login'']) \<and>
      enterRoom_v1 clock roomsRes msgsRes st
        = (st, [Toast ''Unauthorized'' (Some ''Please log in.''), Navigate ''/login''])) \<and>
   (fetchFailed msgsRes \<longrightarrow>
      (\<exists>err. fetchMessages getTime clock msgsRes st = (st, [ConsoleError err]) \<and>
             fetchMessages_v1 clock msgsRes st = (st, [ConsoleError err]))) \<and>
   (truthy (token st) \<and> fetchFailed msgsRes \<longrightarrow>
      messages (fst (enterRoom getTime describe clock roomRes msgsRes st)) = messages st \<and>
      (\<exists>err. snd (enterRoom getTime describe clock roomRes msgsRes st)
         = snd (fetchRoom describe roomRes st) @ [ConsoleError err]) \<and>
      messages (fst (enterRoom_v1 clock roomsRes msgsRes st)) = messages st \<and>
      (\<exists>err. snd (enterRoom_v1 clock roomsRes msgsRes st)
         = snd (fetchRoom_v1 roomsRes st) @ [ConsoleError err])) \<and>
   (fetchFailed roomRes \<longrightarrow>
      (\<exists>err. fetchRoom describe roomRes st
         = (st, [Toast ''Error'' (Some err), Navigate ''/rooms'']))) \<and>
   (ok status \<and> mapMenu (rj_menu room) = Inl f \<longrightarrow>
      fetchRoom describe (Response status (Inr room)) st
        = (st\<lparr>roomTitle := rj_title room\<rparr>,
           [Toast ''Error'' (Some (describe f)), Navigate ''/rooms''])) \<and>
   (ok status \<and> mapMenu (rj_menu room) = Inr items \<longrightarrow>
      fetchRoom describe (Response status (Inr room)) st
        = (st\<lparr>roomTitle := rj_title room, menuItems := items\<rparr>, [])) \<and>
   (fetchFailed roomsRes \<longrightarrow>
      (\<exists>err. fetchRoom_v1 roomsRes st
         = (st, [Toast ''Error'' (Some err), Navigate ''/rooms'']))) \<and>
   (\<not> ok status \<longrightarrow>
      fetchRoom describe (Response status roomBody) st
        = (st, [Toast ''Error'' (Some ''Failed to fetch room''), Navigate ''/rooms'']) \<and>
      fetchRoom_v1 (Response status roomsBody) st
        = (st, [Toast ''Error'' (Some ''Failed to fetch rooms''), Navigate ''/rooms'']) \<and>
      fetchMessages getTime clock (Response status msgsBody) st
        = (st, [ConsoleError ''Failed to fetch messages'']) \<and>
      fetchMessages_v1 clock (Response status msgsBody) st
        = (st, [ConsoleError ''Failed to fetch messages''])) \<and>
   (ok status \<and> find (\<lambda>r. Some (fst r) = roomId st) rooms = None \<longrightarrow>
      fetchRoom_v1 (Response status (Inr rooms)) st
        = (st, [Toast ''Error'' (Some ''Room not found''), Navigate ''/rooms'']))"
proof -
  have a: "\<exists>err. settle ''Failed to fetch messages'' msgsRes = Inl err"
    if "fetchFailed msgsRes"
    using that by (rule settle_failed)
  have b: "\<exists>err. settle ''Failed to fetch room'' roomRes = Inl err"
    if "fetchFailed roomRes"
    using that by (rule settle_failed)
  have c: "\<exists>err. settle ''Failed to fetch rooms'' roomsRes = Inl err"
    if "fetchFailed roomsRes"
    using that by (rule settle_failed)
  have m: "fetchMessages getTime clock msgsRes st' = (st', [ConsoleError err])"
    "fetchMessages_v1 clock msgsRes st' = (st', [ConsoleError err])"
    if "settle ''Failed to fetch messages'' msgsRes = Inl err" for st' err
    using that by (simp_all add: fetchMessages_def fetchMessages_v1_def)
  have r1: "messages (fst (fetchRoom_v1 roomsRes st)) = messages st"
    by (simp add: fetchRoom_v1_def split: sum.splits option.splits)
  have entering: "truthy (token st) \<and> fetchFailed msgsRes \<longrightarrow>
      messages (fst (enterRoom getTime describe clock roomRes msgsRes st)) = messages st \<and>
      (\<exists>err. snd (enterRoom getTime describe clock roomRes msgsRes st)
         = snd (fetchRoom describe roomRes st) @ [ConsoleError err]) \<and>
      messages (fst (enterRoom_v1 clock roomsRes msgsRes st)) = messages st \<and>
      (\<exists>err. snd (enterRoom_v1 clock roomsRes msgsRes st)
         = snd (fetchRoom_v1 roomsRes st) @ [ConsoleError err])"
  proof (intro impI)
    assume h: "truthy (token st) \<and> fetchFailed msgsRes"
    with a obtain err where s: "settle ''Failed to fetch messages'' msgsRes = Inl err"
      by blast
    from h show
      "messages (fst (enterRoom getTime describe clock roomRes msgsRes st)) = messages st \<and>
       (\<exists>err. snd (enterRoom getTime describe clock roomRes msgsRes st)
          = snd (fetchRoom describe roomRes st) @ [ConsoleError err]) \<and>
       messages (fst (enterRoom_v1 clock roomsRes msgsRes st)) = messages st \<and>
       (\<exists>err. snd (enterRoom_v1 clock roomsRes msgsRes st)
          = snd (fetchRoom_v1 roomsRes st) @ [ConsoleError err])"
      by (simp add: enterRoom_def enterRoom_v1_def case_prod_beta m [OF s]
          fetchRoom_messages r1)
  qed
  have history: "(\<not> truthy (token st) \<longrightarrow>
      enterRoom getTime describe clock roomRes msgsRes st
        = (st, [Toast ''Unauthorized'' (Some ''Please log in.''), Navigate ''/login'']) \<and>
      enterRoom_v1 clock roomsRes msgsRes st
        = (st, [Toast ''Unauthorized'' (Some ''Please log in.''), Navigate ''/login''])) \<and>
   (fetchFailed msgsRes \<longrightarrow>
      (\<exists>err. fetchMessages getTime clock msgsRes st = (st, [ConsoleError err]) \<and>
             fetchMessages_v1 clock msgsRes st = (st, [ConsoleError err])))"
    using a m by (auto simp: enterRoom_def enterRoom_v1_def)
  have room: "(fetchFailed roomRes \<longrightarrow>
      (\<exists>err. fetchRoom describe roomRes st
         = (st, [Toast ''Error'' (Some err), Navigate ''/rooms'']))) \<and>
   (ok status \<and> mapMenu (rj_menu room) = Inl f \<longrightarrow>
      fetchRoom describe (Response status (Inr room)) st
        = (st\<lparr>roomTitle := rj_title room\<rparr>,
           [Toast ''Error'' (Some (describe f)), Navigate ''/rooms''])) \<and>
   (ok status \<and> mapMenu (rj_menu room) = Inr items \<longrightarrow>
      fetchRoom describe (Response status (Inr room)) st
        = (st\<lparr>roomTitle := rj_title room, menuItems := items\<rparr>, [])) \<and>
   (fetchFailed roomsRes \<longrightarrow>
      (\<exists>err. fetchRoom_v1 roomsRes st
         = (st, [Toast ''Error'' (Some err), Navigate ''/rooms'']))) \<and>
   (\<not> ok status \<longrightarrow>
      fetchRoom describe (Response status roomBody) st
        = (st, [Toast ''Error'' (Some ''Failed to fetch room''), Navigate ''/rooms'']) \<and>
      fetchRoom_v1 (Response status roomsBody) st
        = (st, [Toast ''Error'' (Some ''Failed to fetch rooms''), Navigate ''/rooms'']) \<and>
      fetchMessages getTime clock (Response status msgsBody) st
        = (st, [ConsoleError ''Failed to fetch messages'']) \<and>
      fetchMessages_v1 clock (Response status msgsBody) st
        = (st, [ConsoleError ''Failed to fetch messages''])) \<and>
   (ok status \<and> find (\<lambda>r. Some (fst r) = roomId st) rooms = None \<longrightarrow>
      fetchRoom_v1 (Response status (Inr rooms)) st
        = (st, [Toast ''Error'' (Some ''Room not found''), Navigate ''/rooms'']))"
    using b c
    by (auto simp: fetchMessages_def fetchMessages_v1_def fetchRoom_def fetchRoom_v1_def
        settle_def)
  from history entering room show ?thesis
    by blast
qed

theorem C8_load_failures_witness:
  "\<not> truthy (token (aliceRoom\<lparr>token := None\<rparr>)) \<and>
   enterRoom getTimeSample engineText febClock (Response 200 (Inr dinner))
       (Response 200 (Inr [firstRecord])) (aliceRoom\<lparr>token := None\<rparr>)
     = (aliceRoom\<lparr>token := None\<rparr>,
        [Toast ''Unauthorized'' (Some ''Please log in.''), Navigate ''/login'']) \<and>
   truthy (token aliceRoom) \<and>
   fetchFailed (Response 200 (Inl ''Unexpected end of JSON input'')
                  :: history_record list fetched) \<and>
   (\<exists>err. fetchMessages getTimeSample febClock
            (Response 200 (Inl ''Unexpected end of JSON input'')) aliceRoom
      = (aliceRoom, [ConsoleError err])) \<and>
   messages (fst (enterRoom getTimeSample engineText febClock (Response 200 (Inr dinner))
       (Response 200 (Inl ''Unexpected end of JSON input'')) aliceRoom)) = [m1] \<and>
   fetchFailed (NetworkError ''Failed to fetch'' :: room_json fetched) \<and>
   (\<exists>err. fetchRoom engineText (NetworkError ''Failed to fetch'') aliceRoom
      = (aliceRoom, [Toast ''Error'' (Some err), Navigate ''/rooms''])) \<and>
   ok 200 \<and> mapMenu (rj_menu brokenMenu) = Inl NotAFunction \<and>
   fetchRoom engineText (Response 200 (Inr brokenMenu)) aliceRoom
     = (aliceRoom\<lparr>roomTitle := ''Lunch''\<rparr>,
        [Toast ''Error'' (Some ''(room.menu || []).map is not a function''),
         Navigate ''/rooms'']) \<and>
   \<not> ok 404 \<and>
   fetchRoom engineText (Response 404 (Inl ''unread'')) aliceRoom
     = (aliceRoom, [Toast ''Error'' (Some ''Failed to fetch room''), Navigate ''/rooms'']) \<and>
   find (\<lambda>r. Some (fst r) = roomId aliceRoom) [(''r2'', ''Lunch'')] = None \<and>
   fetchRoom_v1 (Response 200 (Inr [(''r2'', ''Lunch'')])) aliceRoom
     = (aliceRoom, [Toast ''Error'' (Some ''Room not found''), Navigate ''/rooms''])"
proof -
  let ?out = "aliceRoom\<lparr>token := None\<rparr>"
  let ?bad = "Response 200 (Inl ''Unexpected end of JSON input'') :: history_record list fetched"
  let ?off = "NetworkError ''Failed to fetch'' :: room_json fetched"
  have t: "\<not> truthy (token ?out)" "truthy (token aliceRoom)"
    by (simp_all add: truthy_def aliceRoom_def)
  have m: "fetchFailed ?bad" and r: "fetchFailed ?off"
    by (simp_all add: fetchFailed_def)
  have k: "\<not> ok 404" "ok 200"
    by (simp_all add: ok_def)
  have b: "mapMenu (rj_menu brokenMenu) = Inl NotAFunction"
    by (simp add: brokenMenu_def mapMenu_def)
  have d: "engineText NotAFunction = ''(room.menu || []).map is not a function''"
    "rj_title brokenMenu = ''Lunch''" "messages aliceRoom = [m1]"
    by (simp_all add: engineText_def brokenMenu_def aliceRoom_def)
  have n: "find (\<lambda>r. Some (fst r) = roomId aliceRoom) [(''r2'', ''Lunch'')] = None"
    by (simp add: aliceRoom_def)
  note out = C8_load_failures
         [of ?out getTimeSample engineText febClock "Response 200 (Inr dinner)"
             "Response 200 (Inr [firstRecord])" "NetworkError ''Failed to fetch''"
             200 brokenMenu NotAFunction "[]" "Inl ''unread''" "Inl ''unread''"
             "Inl ''unread''" "[]"]
  note bad = C8_load_failures
         [of aliceRoom getTimeSample engineText febClock "Response 200 (Inr dinner)" ?bad
             "NetworkError ''Failed to fetch''"
             200 brokenMenu NotAFunction "[]" "Inl ''unread''" "Inl ''unread''"
             "Inl ''unread''" "[(''r2'', ''Lunch'')]"]
  note off = C8_load_failures
         [of aliceRoom getTimeSample engineText febClock ?off ?bad
             "NetworkError ''Failed to fetch''"
             404 brokenMenu NotAFunction "[]" "Inl ''unread''" "Inl ''unread''"
             "Inl ''unread''" "[]"]
  from out t have 1: "enterRoom getTimeSample engineText febClock (Response 200 (Inr dinner))
       (Response 200 (Inr [firstRecord])) ?out
     = (?out, [Toast ''Unauthorized'' (Some ''Please log in.''), Navigate ''/login''])"
    by blast
  from bad t m have 2: "\<exists>err. fetchMessages getTimeSample febClock ?bad aliceRoom
      = (aliceRoom, [ConsoleError err])"
    and 3: "messages (fst (enterRoom getTimeSample engineText febClock
       (Response 200 (Inr dinner)) ?bad aliceRoom)) = messages aliceRoom"
    by blast+
  from bad k b have 4: "fetchRoom engineText (Response 200 (Inr brokenMenu)) aliceRoom
     = (aliceRoom\<lparr>roomTitle := rj_title brokenMenu\<rparr>,
        [Toast ''Error'' (Some (engineText NotAFunction)), Navigate ''/rooms''])"
    by blast
  from bad k n have 5: "fetchRoom_v1 (Response 200 (Inr [(''r2'', ''Lunch'')])) aliceRoom
     = (aliceRoom, [Toast ''Error'' (Some ''Room not found''), Navigate ''/rooms''])"
    by blast
  from off r have 6: "\<exists>err. fetchRoom engineText ?off aliceRoom
      = (aliceRoom, [Toast ''Error'' (Some err), Navigate ''/rooms''])"
    by blast
  from off k have 7: "fetchRoom engineText (Response 404 (Inl ''unread'')) aliceRoom
     = (aliceRoom, [Toast ''Error'' (Some ''Failed to fetch room''), Navigate ''/rooms''])"
    by blast
  from t m r k b n 1 2 3 4 5 6 7 d show ?thesis
    by simp
qed

end
